theory Spec2Isabelle
  imports Complex_Main "HOL-Library.Word"
begin

section \<open>JavaScript values\<close>

text \<open>
  A JavaScript string is a sequence of UTF-16 code units. The regular expressions of
  \<open>register\<close> have no \<open>u\<close> flag, so they read a string one code unit at a time.
  \<open>lit\<close> writes an ASCII literal of the source; the Chinese literals are spelled out
  code unit by code unit.
\<close>

type_synonym jsstring = "16 word list"

definition lit :: "string \<Rightarrow> jsstring" where
  "lit s = map of_char s"

text \<open>A non-negative integer inside a template literal: its decimal digits.\<close>

fun decimal :: "nat \<Rightarrow> jsstring" where
  "decimal n =
     (if n < 10 then [of_nat (48 + n)]
      else decimal (n div 10) @ [of_nat (48 + n mod 10)])"

declare decimal.simps [simp del]

text \<open>
  The payloads are typed \<open>any\<close>; what crosses \<open>JSON.parse\<close>, \<open>JSON.stringify\<close> and
  \<open>response.json()\<close> is a JSON value. An object is its list of fields, a lookup
  takes the first field of that name. Numbers are carried, never computed with.
\<close>

datatype json =
    JNull
  | JBool bool
  | JNum real
  | JStr jsstring
  | JArr "json list"
  | JObj "(jsstring \<times> json) list"

text \<open>What \<open>if (v)\<close> and \<open>a && b\<close> test.\<close>

fun truthy :: "json \<Rightarrow> bool" where
  "truthy JNull = False"
| "truthy (JBool b) = b"
| "truthy (JNum x) = (x \<noteq> 0)"
| "truthy (JStr s) = (s \<noteq> [])"
| "truthy (JArr xs) = True"
| "truthy (JObj fs) = True"

text \<open>
  What the code of the session manager can throw. All three are instances of
  \<open>Error\<close>: \<open>new Error(message)\<close>, the \<open>TypeError\<close> of a property read on \<open>null\<close>
  or of a call of a function that is not there, and the \<open>SyntaxError\<close> of \<open>JSON.parse\<close>.
\<close>

datatype js_error = Error jsstring | TypeError | SyntaxError

fun instanceof_Error :: "js_error \<Rightarrow> bool" where
  "instanceof_Error (Error m) = True"
| "instanceof_Error TypeError = True"
| "instanceof_Error SyntaxError = True"

text \<open>
  \<open>u.k\<close> for one of the keys the code reads (\<open>role\<close>, \<open>phone\<close>, \<open>password\<close>):
  a \<open>TypeError\<close> on \<open>null\<close>, \<open>undefined\<close> (here \<open>None\<close>) where the field is missing
  or the value is no object.
\<close>

fun get_prop :: "json \<Rightarrow> jsstring \<Rightarrow> js_error + json option" where
  "get_prop JNull k = Inl TypeError"
| "get_prop (JObj fs) k = Inr (map_of fs k)"
| "get_prop v k = Inr None"

text \<open>\<open>x === s\<close> for a string \<open>s\<close>.\<close>

definition strict_eq :: "json option \<Rightarrow> jsstring \<Rightarrow> bool" where
  "strict_eq x s = (x = Some (JStr s))"

text \<open>\<open>Array.prototype.some\<close>: left to right, stopping at the first hit or throw.\<close>

fun array_some :: "(json \<Rightarrow> js_error + bool) \<Rightarrow> json list \<Rightarrow> js_error + bool" where
  "array_some p [] = Inr False"
| "array_some p (u # us) =
     (case p u of
        Inl e \<Rightarrow> Inl e
      | Inr hit \<Rightarrow> if hit then Inr True else array_some p us)"

text \<open>\<open>Array.prototype.find\<close>: the first hit, \<open>undefined\<close> (\<open>None\<close>) when there is none.\<close>

fun array_find :: "(json \<Rightarrow> js_error + bool) \<Rightarrow> json list \<Rightarrow> js_error + json option" where
  "array_find p [] = Inr None"
| "array_find p (u # us) =
     (case p u of
        Inl e \<Rightarrow> Inl e
      | Inr hit \<Rightarrow> if hit then Inr (Some u) else array_find p us)"

text \<open>
  \<open>const { password: _, ...userWithoutPassword } = v\<close>: the own enumerable
  properties of \<open>v\<close> but \<open>password\<close>. An array or a string spreads its indices, a
  number or a boolean has none, \<open>null\<close> cannot be destructured.
\<close>

definition indexed :: "json list \<Rightarrow> (jsstring \<times> json) list" where
  "indexed xs = zip (map decimal [0..<length xs]) xs"

fun without_password :: "json \<Rightarrow> js_error + json" where
  "without_password JNull = Inl TypeError"
| "without_password (JObj fs) = Inr (JObj (filter (\<lambda>f. fst f \<noteq> lit ''password'') fs))"
| "without_password (JArr xs) = Inr (JObj (indexed xs))"
| "without_password (JStr s) = Inr (JObj (indexed (map (\<lambda>c. JStr [c]) s)))"
| "without_password v = Inr (JObj [])"

definition has_field :: "jsstring \<Rightarrow> json \<Rightarrow> bool" where
  "has_field k v = (case v of JObj fs \<Rightarrow> map_of fs k \<noteq> None | _ \<Rightarrow> False)"

section \<open>The browser's localStorage\<close>

text \<open>
  \<open>localStorage\<close> maps a key to a text. The code does two things with a text it
  reads: it tests it for truth (a text is false when empty) and gives it to
  \<open>JSON.parse\<close>. A stored text is therefore kept as what \<open>JSON.parse\<close> makes of it:
  the value it decodes to, the empty text, or a non-empty text that is no JSON.
  \<open>JSON.stringify\<close> of a JSON value stores the text of that value. The store itself
  is taken to answer: \<open>getItem\<close> and \<open>setItem\<close> do not throw.
\<close>

datatype stored = Json_text json | Empty_text | Bad_text

type_synonym storage = "jsstring \<Rightarrow> stored option"

fun text_truthy :: "stored option \<Rightarrow> bool" where
  "text_truthy None = False"
| "text_truthy (Some Empty_text) = False"
| "text_truthy (Some t) = True"

fun JSON_parse :: "stored \<Rightarrow> js_error + json" where
  "JSON_parse (Json_text v) = Inr v"
| "JSON_parse t = Inl SyntaxError"

definition setItem :: "jsstring \<Rightarrow> json \<Rightarrow> storage \<Rightarrow> storage" where
  "setItem key v ls = ls(key \<mapsto> Json_text v)"

definition removeItem :: "jsstring \<Rightarrow> storage \<Rightarrow> storage" where
  "removeItem key ls = ls(key := None)"

subsection \<open>The safe wrappers of lib/utils\<close>

text \<open>
  Modelled from the spec: \<open>safeLocalStorageGet\<close> of \<open>src/lib/utils\<close>, imported by
  the session manager and not among the sources. The spec (4.2):
  "\<open>get(key, fallback)\<close>: reads and JSON-decodes the value at \<open>key\<close>; on missing key,
  decode failure, or store unavailability, returns \<open>fallback\<close> and never raises."
\<close>

definition safeLocalStorageGet :: "jsstring \<Rightarrow> json \<Rightarrow> storage \<Rightarrow> json" where
  "safeLocalStorageGet key fallback ls =
     (case ls key of
        None \<Rightarrow> fallback
      | Some t \<Rightarrow> (case JSON_parse t of Inl e \<Rightarrow> fallback | Inr v \<Rightarrow> v))"

text \<open>
  Modelled from the spec: \<open>safeLocalStorageSet\<close> of \<open>src/lib/utils\<close>. The spec (4.2):
  "\<open>set(key, value)\<close>: JSON-encodes and writes; returns whether the write succeeded;
  never raises."
\<close>

definition safeLocalStorageSet :: "jsstring \<Rightarrow> json \<Rightarrow> storage \<Rightarrow> bool \<times> storage" where
  "safeLocalStorageSet key v ls = (True, setItem key v ls)"

section \<open>The session manager (contexts/authContext.ts)\<close>

text \<open>
  \<open>DEFAULT_ADMIN\<close>; its \<open>createdAt\<close> is the clock's reading when the module is loaded.
  The username is the three code units of the Chinese word for administrator.
\<close>

definition admin_phone :: jsstring where
  "admin_phone = lit ''13800138000''"

definition DEFAULT_ADMIN :: "jsstring \<Rightarrow> (jsstring \<times> json) list" where
  "DEFAULT_ADMIN loaded_at =
     [(lit ''id'', JStr (lit ''admin-001'')),
      (lit ''username'', JStr [0x7BA1, 0x7406, 0x5458]),
      (lit ''phone'', JStr admin_phone),
      (lit ''role'', JStr (lit ''admin'')),
      (lit ''createdAt'', JStr loaded_at)]"

text \<open>\<open>u.role === 'admin' && u.phone === DEFAULT_ADMIN.phone\<close>\<close>

definition is_default_admin :: "json \<Rightarrow> js_error + bool" where
  "is_default_admin u =
     (case get_prop u (lit ''role'') of
        Inl e \<Rightarrow> Inl e
      | Inr r \<Rightarrow>
          if strict_eq r (lit ''admin'')
          then (case get_prop u (lit ''phone'') of
                  Inl e \<Rightarrow> Inl e
                | Inr p \<Rightarrow> Inr (strict_eq p admin_phone))
          else Inr False)"

text \<open>
  \<open>ensureAdminExists\<close>. \<open>users.some\<close> is a \<open>TypeError\<close> when the stored value is no
  array; the \<open>catch\<close> logs any error and leaves the store as it is.
\<close>

definition ensureAdminExists :: "jsstring \<Rightarrow> storage \<Rightarrow> storage" where
  "ensureAdminExists loaded_at ls =
     (case safeLocalStorageGet (lit ''users'') (JArr []) ls of
        JArr users \<Rightarrow>
          (case array_some is_default_admin users of
             Inl e \<Rightarrow> ls
           | Inr adminExists \<Rightarrow>
               if \<not> adminExists
               then
                 let adminWithPassword =
                       JObj (DEFAULT_ADMIN loaded_at @ [(lit ''password'', JStr (lit ''admin123''))])
                 in snd (safeLocalStorageSet (lit ''users'') (JArr (users @ [adminWithPassword])) ls)
               else ls)
      | v \<Rightarrow> ls)"

text \<open>The stored roster as the claims read it: the entries of the array under \<open>users\<close>.\<close>

definition roster :: "storage \<Rightarrow> json list" where
  "roster ls = (case ls (lit ''users'') of Some (Json_text (JArr us)) \<Rightarrow> us | _ \<Rightarrow> [])"

definition admin_records :: "storage \<Rightarrow> json list" where
  "admin_records ls = filter (\<lambda>u. is_default_admin u = Inr True) (roster ls)"

text \<open>A value read as the roster is well formed: an array, none of its entries \<open>null\<close>.\<close>

definition entries_ok :: "json \<Rightarrow> bool" where
  "entries_ok v = (case v of JArr us \<Rightarrow> JNull \<notin> set us | _ \<Rightarrow> False)"

subsection \<open>The patterns of register\<close>

text \<open>
  The three patterns are anchored at both ends and are sequences of character
  classes, each taken once, any number of times (\<open>*\<close>), at least once (\<open>+\<close>) or a
  fixed number of times (\<open>{n}\<close>). A class is a list of code unit ranges.
  \<open>matches p s\<close> is \<open>p.test(s)\<close>: it tries the longer repetition first and falls
  back, as the regular expression engine does.
\<close>

type_synonym char_class = "(16 word \<times> 16 word) list"

datatype quantifier = Once | Star | Plus | Times nat

type_synonym pattern = "(char_class \<times> quantifier) list"

definition chr :: "16 word \<Rightarrow> char_class" where
  "chr c = [(c, c)]"

definition in_class :: "char_class \<Rightarrow> 16 word \<Rightarrow> bool" where
  "in_class cls c = list_ex (\<lambda>r. fst r \<le> c \<and> c \<le> snd r) cls"

fun matches :: "pattern \<Rightarrow> jsstring \<Rightarrow> bool" where
  "matches [] [] = True"
| "matches [] (c # cs) = False"
| "matches ((cls, Once) # ps) [] = False"
| "matches ((cls, Once) # ps) (c # cs) = (in_class cls c \<and> matches ps cs)"
| "matches ((cls, Star) # ps) [] = matches ps []"
| "matches ((cls, Star) # ps) (c # cs) =
     ((in_class cls c \<and> matches ((cls, Star) # ps) cs) \<or> matches ps (c # cs))"
| "matches ((cls, Plus) # ps) [] = False"
| "matches ((cls, Plus) # ps) (c # cs) = (in_class cls c \<and> matches ((cls, Star) # ps) cs)"
| "matches ((cls, Times 0) # ps) s = matches ps s"
| "matches ((cls, Times (Suc n)) # ps) [] = False"
| "matches ((cls, Times (Suc n)) # ps) (c # cs) =
     (in_class cls c \<and> matches ((cls, Times n) # ps) cs)"

text \<open>
  \<open>studentNameRegex\<close>, in the source \<^verbatim>\<open>/^202[0-9]J[1-9]\d*[B|K][C]+$/\<close> where \<open>J\<close>
  stands for U+5C4A (the year-group mark), \<open>B\<close> for U+73ED (the class mark), \<open>K\<close> for
  U+7D1A (the grade mark) and \<open>C\<close> for the range U+4E00 to U+9FA5. Inside the
  brackets the bar is a character of the class, like the two marks beside it.
\<close>

definition studentNameRegex :: pattern where
  "studentNameRegex =
     [(chr 0x32, Once), (chr 0x30, Once), (chr 0x32, Once),
      ([(0x30, 0x39)], Once),
      (chr 0x5C4A, Once),
      ([(0x31, 0x39)], Once),
      ([(0x30, 0x39)], Star),
      (chr 0x73ED @ chr 0x7C @ chr 0x7D1A, Once),
      ([(0x4E00, 0x9FA5)], Plus)]"

text \<open>\<open>teacherNameRegex\<close>, in the source \<^verbatim>\<open>/^[C]+$/\<close> with the same range \<open>C\<close>.\<close>

definition teacherNameRegex :: pattern where
  "teacherNameRegex = [([(0x4E00, 0x9FA5)], Plus)]"

text \<open>\<open>phoneRegex\<close>, in the source \<^verbatim>\<open>/^1[3-9]\d{9}$/\<close>.\<close>

definition phoneRegex :: pattern where
  "phoneRegex = [(chr 0x31, Once), ([(0x33, 0x39)], Once), ([(0x30, 0x39)], Times 9)]"

text \<open>
  The same three formats in the spec's words, to compare the patterns with. A digit
  and a Chinese character are the ranges the source writes. A student name is
  "\<open><4-digit year>J<N>B<Chinese name>\<close>, year prefix 202", with \<open>N\<close> a digit from
  1 to 9 and then any digits; the marks allowed in the place of \<open>B\<close> are a parameter
  (\<open>mark_and_name\<close> reads the rest of the digits, the mark and the name). A
  teacher name is "a pure Chinese-character name". A phone is "an 11-digit CN mobile
  pattern": a 1, a digit from 3 to 9, nine more digits.
\<close>

definition is_digit :: "16 word \<Rightarrow> bool" where
  "is_digit c = (0x30 \<le> c \<and> c \<le> 0x39)"

definition is_chinese :: "16 word \<Rightarrow> bool" where
  "is_chinese c = (0x4E00 \<le> c \<and> c \<le> 0x9FA5)"

definition chinese_name :: "jsstring \<Rightarrow> bool" where
  "chinese_name s = (s \<noteq> [] \<and> list_all is_chinese s)"

definition mark_and_name :: "16 word list \<Rightarrow> jsstring \<Rightarrow> bool" where
  "mark_and_name marks s =
     (case dropWhile is_digit s of
        [] \<Rightarrow> False
      | m # name \<Rightarrow> m \<in> set marks \<and> chinese_name name)"

definition student_name :: "16 word list \<Rightarrow> jsstring \<Rightarrow> bool" where
  "student_name marks s =
     (case s of
        y1 # y2 # y3 # y4 # j # n # rest \<Rightarrow>
          [y1, y2, y3] = lit ''202'' \<and> is_digit y4 \<and> j = 0x5C4A \<and>
          0x31 \<le> n \<and> n \<le> 0x39 \<and> mark_and_name marks rest
      | _ \<Rightarrow> False)"

definition cn_mobile :: "jsstring \<Rightarrow> bool" where
  "cn_mobile s =
     (case s of
        a # b # rest \<Rightarrow>
          a = 0x31 \<and> 0x33 \<le> b \<and> b \<le> 0x39 \<and> length rest = 9 \<and> list_all is_digit rest
      | _ \<Rightarrow> False)"

subsection \<open>The messages of the errors register throws\<close>

text \<open>"The student username has the wrong format, use the format ... (such as ...)".\<close>

definition student_format_message :: jsstring where
  "student_format_message =
     [0x5B66, 0x751F, 0x7528, 0x6237, 0x540D, 0x683C, 0x5F0F, 0x4E0D, 0x6B63, 0x786E,
      0xFF0C, 0x8BF7, 0x4F7F, 0x7528, 0x0022, 0x0032, 0x0030, 0x0032, 0x0035, 0x5C4A,
      0x0058, 0x73ED, 0x59D3, 0x540D, 0x0022, 0x683C, 0x5F0F, 0xFF08, 0x5982, 0xFF1A,
      0x0032, 0x0030, 0x0032, 0x0035, 0x5C4A, 0x0031, 0x73ED, 0x5F20, 0x4E09, 0xFF09]"

text \<open>"The teacher username has the wrong format, use the teacher's name (such as ...)".\<close>

definition teacher_format_message :: jsstring where
  "teacher_format_message =
     [0x8001, 0x5E08, 0x7528, 0x6237, 0x540D, 0x683C, 0x5F0F, 0x4E0D, 0x6B63, 0x786E,
      0xFF0C, 0x8BF7, 0x76F4, 0x63A5, 0x4F7F, 0x7528, 0x8001, 0x5E08, 0x59D3, 0x540D,
      0xFF08, 0x5982, 0xFF1A, 0x674E, 0x8001, 0x5E08, 0xFF09]"

text \<open>"Please enter a valid mobile number".\<close>

definition phone_format_message :: jsstring where
  "phone_format_message =
     [0x8BF7, 0x8F93, 0x5165, 0x6709, 0x6548, 0x7684, 0x624B, 0x673A, 0x53F7, 0x7801]"

text \<open>"This mobile number is already registered".\<close>

definition phone_taken_message :: jsstring where
  "phone_taken_message = [0x8BE5, 0x624B, 0x673A, 0x53F7, 0x5DF2, 0x88AB, 0x6CE8, 0x518C]"

section \<open>The API service (lib/apiService.ts)\<close>

text \<open>The envelope \<open>ApiResponse<T>\<close>; an optional field that is missing is \<open>None\<close>.\<close>

record ApiResponse =
  success :: bool
  data :: "json option"
  error :: "jsstring option"

text \<open>
  The network is a parameter. \<open>fetch\<close> either rejects or resolves with a response;
  \<open>response.json()\<close> either rejects or resolves with the decoded body, which the
  source types as an envelope. What a rejected promise carries is an instance of
  \<open>Error\<close> with its message, or some other value.
\<close>

datatype fault = Thrown_Error jsstring | Thrown_other

record response =
  ok :: bool
  status :: nat
  json :: "fault + ApiResponse"

datatype fetch_result = Rejects fault | Resolves response

record options =
  method' :: "jsstring option"
  body :: "json option"
  headers :: "(jsstring \<times> jsstring) list"

record request = options +
  url :: jsstring

type_synonym network = "request \<Rightarrow> fetch_result"

text \<open>\<open>import.meta.env\<close>\<close>

record env =
  DEV :: bool
  VITE_API_BASE_URL :: "jsstring option"

definition API_BASE_URL :: "env \<Rightarrow> jsstring" where
  "API_BASE_URL e =
     (case VITE_API_BASE_URL e of
        None \<Rightarrow> lit ''/api''
      | Some b \<Rightarrow> if b \<noteq> [] then b else lit ''/api'')"

text \<open>The default \<open>options = {}\<close>.\<close>

definition no_options :: options where
  "no_options = \<lparr>method' = None, body = None, headers = []\<rparr>"

definition POST :: "json \<Rightarrow> options" where
  "POST b = \<lparr>method' = Some (lit ''POST''), body = Some b, headers = []\<rparr>"

text \<open>
  The messages of \<open>apiRequest\<close>: "API request failed: " (before the status), "the API
  service is unavailable, using local storage", and "unknown error".
\<close>

definition request_failed_message :: "nat \<Rightarrow> jsstring" where
  "request_failed_message st =
     [0x0041, 0x0050, 0x0049, 0x8BF7, 0x6C42, 0x5931, 0x8D25, 0x003A, 0x0020] @ decimal st"

definition unavailable_message :: jsstring where
  "unavailable_message =
     [0x0041, 0x0050, 0x0049, 0x670D, 0x52A1, 0x4E0D, 0x53EF, 0x7528, 0xFF0C, 0x6B63,
      0x5728, 0x4F7F, 0x7528, 0x672C, 0x5730, 0x5B58, 0x50A8]"

definition unknown_message :: jsstring where
  "unknown_message = [0x672A, 0x77E5, 0x9519, 0x8BEF]"

text \<open>
  \<open>apiRequest\<close>. The \<open>try\<close> block yields the decoded body or what was thrown in it:
  the rejection of \<open>fetch\<close>, the \<open>Error\<close> made for a response that is not \<open>ok\<close>, or
  the rejection of \<open>response.json()\<close>. The \<open>catch\<close> block turns what was thrown into
  an envelope. \<open>fetch_request\<close> is the request \<open>fetch\<close> is called with; a header of
  the caller comes after the default one and so wins.
\<close>

definition fetch_request :: "env \<Rightarrow> jsstring \<Rightarrow> options \<Rightarrow> request" where
  "fetch_request e endpoint opts =
     \<lparr>method' = method' opts, body = body opts,
      headers = (lit ''Content-Type'', lit ''application/json'') # headers opts,
      url = API_BASE_URL e @ lit ''/'' @ endpoint\<rparr>"

definition apiRequest :: "env \<Rightarrow> network \<Rightarrow> jsstring \<Rightarrow> options \<Rightarrow> ApiResponse" where
  "apiRequest e fetch endpoint opts =
     (case
        (case fetch (fetch_request e endpoint opts) of
           Rejects thrown \<Rightarrow> Inl thrown
         | Resolves r \<Rightarrow>
             if \<not> ok r then Inl (Thrown_Error (request_failed_message (status r)))
             else json r)
      of
        Inr envelope \<Rightarrow> envelope
      | Inl thrown \<Rightarrow>
          if DEV e
          then \<lparr>success = False, data = None, error = Some unavailable_message\<rparr>
          else \<lparr>success = False, data = None,
                error = Some (case thrown of
                                Thrown_Error message \<Rightarrow> message
                              | Thrown_other \<Rightarrow> unknown_message)\<rparr>)"

subsection \<open>The resource modules\<close>

text \<open>
  Every exported operation runs against the browser's store: it takes the store and
  returns its envelope with the store it leaves. In a read, \<open>getItem\<close> gives the text
  under the resource's key; a text that is there and not empty goes to \<open>JSON.parse\<close>,
  whose \<open>SyntaxError\<close> is caught and logged, and then the remote result is returned.
\<close>

definition getSubmittedWorks :: "env \<Rightarrow> network \<Rightarrow> storage \<Rightarrow> ApiResponse \<times> storage" where
  "getSubmittedWorks e fetch ls =
     (let result = apiRequest e fetch (lit ''works/submitted'') no_options in
      if \<not> success result
      then (case ls (lit ''submittedWorks'') of
              None \<Rightarrow> (result, ls)
            | Some savedWorks \<Rightarrow>
                if text_truthy (Some savedWorks)
                then (case JSON_parse savedWorks of
                        Inr v \<Rightarrow> (\<lparr>success = True, data = Some v, error = None\<rparr>, ls)
                      | Inl thrown \<Rightarrow> (result, ls))
                else (result, ls))
      else (result, ls))"

definition getFeaturedWorks :: "env \<Rightarrow> network \<Rightarrow> storage \<Rightarrow> ApiResponse \<times> storage" where
  "getFeaturedWorks e fetch ls =
     (let result = apiRequest e fetch (lit ''works/featured'') no_options in
      if \<not> success result
      then (case ls (lit ''featuredWorks'') of
              None \<Rightarrow> (result, ls)
            | Some savedWorks \<Rightarrow>
                if text_truthy (Some savedWorks)
                then (case JSON_parse savedWorks of
                        Inr v \<Rightarrow> (\<lparr>success = True, data = Some v, error = None\<rparr>, ls)
                      | Inl thrown \<Rightarrow> (result, ls))
                else (result, ls))
      else (result, ls))"

definition submitWork :: "env \<Rightarrow> network \<Rightarrow> json \<Rightarrow> storage \<Rightarrow> ApiResponse \<times> storage" where
  "submitWork e fetch work ls = (apiRequest e fetch (lit ''works/submit'') (POST work), ls)"

definition userApi_login ::
  "env \<Rightarrow> network \<Rightarrow> jsstring \<Rightarrow> jsstring \<Rightarrow> storage \<Rightarrow> ApiResponse \<times> storage" where
  "userApi_login e fetch phone password ls =
     (apiRequest e fetch (lit ''user/login'')
        (POST (JObj [(lit ''phone'', JStr phone), (lit ''password'', JStr password)])), ls)"

datatype userType = student | teacher

fun userType_string :: "userType \<Rightarrow> jsstring" where
  "userType_string student = lit ''student''"
| "userType_string teacher = lit ''teacher''"

definition userApi_register ::
  "env \<Rightarrow> network \<Rightarrow> jsstring \<Rightarrow> jsstring \<Rightarrow> jsstring \<Rightarrow> userType \<Rightarrow> storage
     \<Rightarrow> ApiResponse \<times> storage" where
  "userApi_register e fetch phone username password ut ls =
     (apiRequest e fetch (lit ''user/register'')
        (POST (JObj [(lit ''phone'', JStr phone), (lit ''username'', JStr username),
                     (lit ''password'', JStr password),
                     (lit ''userType'', JStr (userType_string ut))])), ls)"

definition getCurrentUser :: "env \<Rightarrow> network \<Rightarrow> storage \<Rightarrow> ApiResponse \<times> storage" where
  "getCurrentUser e fetch ls = (apiRequest e fetch (lit ''user/current'') no_options, ls)"

definition getMessages :: "env \<Rightarrow> network \<Rightarrow> storage \<Rightarrow> ApiResponse \<times> storage" where
  "getMessages e fetch ls =
     (let result = apiRequest e fetch (lit ''messages'') no_options in
      if \<not> success result
      then (case ls (lit ''messages'') of
              None \<Rightarrow> (result, ls)
            | Some savedMessages \<Rightarrow>
                if text_truthy (Some savedMessages)
                then (case JSON_parse savedMessages of
                        Inr v \<Rightarrow> (\<lparr>success = True, data = Some v, error = None\<rparr>, ls)
                      | Inl thrown \<Rightarrow> (result, ls))
                else (result, ls))
      else (result, ls))"

definition postMessage :: "env \<Rightarrow> network \<Rightarrow> json \<Rightarrow> storage \<Rightarrow> ApiResponse \<times> storage" where
  "postMessage e fetch message ls = (apiRequest e fetch (lit ''messages'') (POST message), ls)"

definition getActivities :: "env \<Rightarrow> network \<Rightarrow> storage \<Rightarrow> ApiResponse \<times> storage" where
  "getActivities e fetch ls =
     (let result = apiRequest e fetch (lit ''voting/activities'') no_options in
      if \<not> success result
      then (case ls (lit ''votingActivities'') of
              None \<Rightarrow> (result, ls)
            | Some savedActivities \<Rightarrow>
                if text_truthy (Some savedActivities)
                then (case JSON_parse savedActivities of
                        Inr v \<Rightarrow> (\<lparr>success = True, data = Some v, error = None\<rparr>, ls)
                      | Inl thrown \<Rightarrow> (result, ls))
                else (result, ls))
      else (result, ls))"

definition vote :: "env \<Rightarrow> network \<Rightarrow> jsstring \<Rightarrow> real \<Rightarrow> storage \<Rightarrow> ApiResponse \<times> storage" where
  "vote e fetch activityId workId ls =
     (apiRequest e fetch (lit ''voting/activities/'' @ activityId @ lit ''/vote'')
        (POST (JObj [(lit ''workId'', JNum workId)])), ls)"

definition getKnowledgeItems :: "env \<Rightarrow> network \<Rightarrow> storage \<Rightarrow> ApiResponse \<times> storage" where
  "getKnowledgeItems e fetch ls =
     (let result = apiRequest e fetch (lit ''knowledge'') no_options in
      if \<not> success result
      then (case ls (lit ''photographyKnowledge'') of
              None \<Rightarrow> (result, ls)
            | Some savedItems \<Rightarrow>
                if text_truthy (Some savedItems)
                then (case JSON_parse savedItems of
                        Inr v \<Rightarrow> (\<lparr>success = True, data = Some v, error = None\<rparr>, ls)
                      | Inl thrown \<Rightarrow> (result, ls))
                else (result, ls))
      else (result, ls))"

subsection \<open>The exported object\<close>

text \<open>
  The default export gathers the five modules. An operation of it is one of the
  eleven functions with its arguments; \<open>perform\<close> calls it. \<open>endpoint\<close>,
  \<open>options_of\<close> and \<open>cache_key\<close> name what each function hands to \<open>apiRequest\<close> and
  the key a read falls back to; \<open>perform_remote\<close> and \<open>perform_read\<close> below
  check them against the functions.
\<close>

datatype operation =
    GetSubmittedWorks
  | GetFeaturedWorks
  | SubmitWork json
  | Login jsstring jsstring
  | Register jsstring jsstring jsstring userType
  | GetCurrentUser
  | GetMessages
  | PostMessage json
  | GetActivities
  | Vote jsstring real
  | GetKnowledgeItems

fun perform :: "operation \<Rightarrow> env \<Rightarrow> network \<Rightarrow> storage \<Rightarrow> ApiResponse \<times> storage" where
  "perform GetSubmittedWorks e fetch ls = getSubmittedWorks e fetch ls"
| "perform GetFeaturedWorks e fetch ls = getFeaturedWorks e fetch ls"
| "perform (SubmitWork work) e fetch ls = submitWork e fetch work ls"
| "perform (Login phone password) e fetch ls = userApi_login e fetch phone password ls"
| "perform (Register phone username password ut) e fetch ls =
     userApi_register e fetch phone username password ut ls"
| "perform GetCurrentUser e fetch ls = getCurrentUser e fetch ls"
| "perform GetMessages e fetch ls = getMessages e fetch ls"
| "perform (PostMessage message) e fetch ls = postMessage e fetch message ls"
| "perform GetActivities e fetch ls = getActivities e fetch ls"
| "perform (Vote activityId workId) e fetch ls = vote e fetch activityId workId ls"
| "perform GetKnowledgeItems e fetch ls = getKnowledgeItems e fetch ls"

fun endpoint :: "operation \<Rightarrow> jsstring" where
  "endpoint GetSubmittedWorks = lit ''works/submitted''"
| "endpoint GetFeaturedWorks = lit ''works/featured''"
| "endpoint (SubmitWork work) = lit ''works/submit''"
| "endpoint (Login phone password) = lit ''user/login''"
| "endpoint (Register phone username password ut) = lit ''user/register''"
| "endpoint GetCurrentUser = lit ''user/current''"
| "endpoint GetMessages = lit ''messages''"
| "endpoint (PostMessage message) = lit ''messages''"
| "endpoint GetActivities = lit ''voting/activities''"
| "endpoint (Vote activityId workId) = lit ''voting/activities/'' @ activityId @ lit ''/vote''"
| "endpoint GetKnowledgeItems = lit ''knowledge''"

fun options_of :: "operation \<Rightarrow> options" where
  "options_of (SubmitWork work) = POST work"
| "options_of (Login phone password) =
     POST (JObj [(lit ''phone'', JStr phone), (lit ''password'', JStr password)])"
| "options_of (Register phone username password ut) =
     POST (JObj [(lit ''phone'', JStr phone), (lit ''username'', JStr username),
                 (lit ''password'', JStr password),
                 (lit ''userType'', JStr (userType_string ut))])"
| "options_of (PostMessage message) = POST message"
| "options_of (Vote activityId workId) = POST (JObj [(lit ''workId'', JNum workId)])"
| "options_of other = no_options"

fun cache_key :: "operation \<Rightarrow> jsstring option" where
  "cache_key GetSubmittedWorks = Some (lit ''submittedWorks'')"
| "cache_key GetFeaturedWorks = Some (lit ''featuredWorks'')"
| "cache_key GetMessages = Some (lit ''messages'')"
| "cache_key GetActivities = Some (lit ''votingActivities'')"
| "cache_key GetKnowledgeItems = Some (lit ''photographyKnowledge'')"
| "cache_key other = None"

text \<open>The remote result of an operation: what \<open>apiRequest\<close> returns for its request.\<close>

definition remote_result :: "operation \<Rightarrow> env \<Rightarrow> network \<Rightarrow> ApiResponse" where
  "remote_result op e fetch = apiRequest e fetch (endpoint op) (options_of op)"

text \<open>
  The remote call fails: \<open>fetch\<close> rejects, the response is not \<open>ok\<close>, its body does
  not decode, or the decoded envelope signals failure.
\<close>

fun remote_failed :: "fetch_result \<Rightarrow> bool" where
  "remote_failed (Rejects thrown) = True"
| "remote_failed (Resolves r) =
     (\<not> ok r \<or> (case json r of Inl thrown \<Rightarrow> True | Inr envelope \<Rightarrow> \<not> success envelope))"

text \<open>The envelope invariant of the spec (3): data with success, and only then.\<close>

definition envelope_invariant :: "ApiResponse \<Rightarrow> bool" where
  "envelope_invariant r = (success r = (data r \<noteq> None))"

section \<open>The session manager: login, register, logout, isAdmin\<close>

text \<open>
  The state of \<open>useAuthContext\<close> (\<open>user\<close> is \<open>User | null\<close>, \<open>null\<close> is \<open>None\<close>)
  together with the store it writes to.
\<close>

record session =
  isAuthenticated :: bool
  user :: "json option"
  localStorage :: storage

text \<open>\<open>result.success && result.data\<close>: the data, when both are truthy.\<close>

definition success_with_data :: "ApiResponse \<Rightarrow> json option" where
  "success_with_data result =
     (if success result
      then (case data result of
              None \<Rightarrow> None
            | Some d \<Rightarrow> if truthy d then Some d else None)
      else None)"

text \<open>\<open>u.phone === phone && u.password === password\<close>\<close>

definition credentials_match :: "jsstring \<Rightarrow> jsstring \<Rightarrow> json \<Rightarrow> js_error + bool" where
  "credentials_match phone password u =
     (case get_prop u (lit ''phone'') of
        Inl e \<Rightarrow> Inl e
      | Inr p \<Rightarrow>
          if strict_eq p phone
          then (case get_prop u (lit ''password'') of
                  Inl e \<Rightarrow> Inl e
                | Inr q \<Rightarrow> Inr (strict_eq q password))
          else Inr False)"

text \<open>
  The \<open>try\<close> block of \<open>login\<close>: the value returned with the state left, or what was
  thrown. \<open>users.find\<close> is a \<open>TypeError\<close> when the stored value is no array.
\<close>

definition login_try ::
  "env \<Rightarrow> network \<Rightarrow> jsstring \<Rightarrow> jsstring \<Rightarrow> session \<Rightarrow> js_error + (bool \<times> session)" where
  "login_try e fetch phone password s =
     (let (result, ls) = userApi_login e fetch phone password (localStorage s) in
      case success_with_data result of
        Some d \<Rightarrow>
          Inr (True, s\<lparr>user := Some d, isAuthenticated := True,
                       localStorage := snd (safeLocalStorageSet (lit ''currentUser'') d ls)\<rparr>)
      | None \<Rightarrow>
          (case safeLocalStorageGet (lit ''users'') (JArr []) ls of
             JArr users \<Rightarrow>
               (case array_find (credentials_match phone password) users of
                  Inl thrown \<Rightarrow> Inl thrown
                | Inr None \<Rightarrow> Inr (False, s\<lparr>localStorage := ls\<rparr>)
                | Inr (Some foundUser) \<Rightarrow>
                    if truthy foundUser
                    then (case without_password foundUser of
                            Inl thrown \<Rightarrow> Inl thrown
                          | Inr userWithoutPassword \<Rightarrow>
                              Inr (True, s\<lparr>user := Some userWithoutPassword,
                                           isAuthenticated := True,
                                           localStorage :=
                                             snd (safeLocalStorageSet (lit ''currentUser'')
                                                    userWithoutPassword ls)\<rparr>))
                    else Inr (False, s\<lparr>localStorage := ls\<rparr>))
           | v \<Rightarrow> Inl TypeError))"

text \<open>
  \<open>login\<close>: the \<open>catch\<close> block logs what was thrown and returns \<open>false\<close>. Nothing is
  written before the places that can throw, so the state is the one login began with.
\<close>

definition login :: "env \<Rightarrow> network \<Rightarrow> jsstring \<Rightarrow> jsstring \<Rightarrow> session \<Rightarrow> bool \<times> session" where
  "login e fetch phone password s =
     (case login_try e fetch phone password s of
        Inr returned \<Rightarrow> returned
      | Inl thrown \<Rightarrow> (False, s))"

text \<open>\<open>localStorage.getItem(key) || fallback\<close>: the fallback for no text and for the empty one.\<close>

definition getItem_or :: "storage \<Rightarrow> jsstring \<Rightarrow> stored \<Rightarrow> stored" where
  "getItem_or ls key fallback =
     (case ls key of
        None \<Rightarrow> fallback
      | Some t \<Rightarrow> if text_truthy (Some t) then t else fallback)"

text \<open>\<open>u.phone === phone\<close>\<close>

definition has_phone :: "jsstring \<Rightarrow> json \<Rightarrow> js_error + bool" where
  "has_phone phone u =
     (case get_prop u (lit ''phone'') of
        Inl e \<Rightarrow> Inl e
      | Inr p \<Rightarrow> Inr (strict_eq p phone))"

text \<open>
  The \<open>try\<close> block of \<open>register\<close>. \<open>now\<close> is \<open>Date.now()\<close> and \<open>now_iso\<close> is
  \<open>new Date().toISOString()\<close> at the moment the record is made. The local branch
  reads and writes the store directly, without the safe wrappers.
\<close>

definition register_try ::
  "env \<Rightarrow> network \<Rightarrow> nat \<Rightarrow> jsstring \<Rightarrow> jsstring \<Rightarrow> jsstring \<Rightarrow> jsstring \<Rightarrow> userType \<Rightarrow> session
     \<Rightarrow> js_error + (bool \<times> session)" where
  "register_try e fetch now now_iso phone username password ut s =
     (let (result, ls) = userApi_register e fetch phone username password ut (localStorage s) in
      case success_with_data result of
        Some d \<Rightarrow>
          (case without_password d of
             Inl thrown \<Rightarrow> Inl thrown
           | Inr userWithoutPassword \<Rightarrow>
               Inr (True, s\<lparr>user := Some userWithoutPassword, isAuthenticated := True,
                            localStorage :=
                              snd (safeLocalStorageSet (lit ''currentUser'')
                                     userWithoutPassword ls)\<rparr>))
      | None \<Rightarrow>
          if ut = student \<and> \<not> matches studentNameRegex username
          then Inl (Error student_format_message)
          else if ut \<noteq> student \<and> \<not> matches teacherNameRegex username
          then Inl (Error teacher_format_message)
          else if \<not> matches phoneRegex phone
          then Inl (Error phone_format_message)
          else
            (case JSON_parse (getItem_or ls (lit ''users'') (Json_text (JArr []))) of
               Inl thrown \<Rightarrow> Inl thrown
             | Inr (JArr users) \<Rightarrow>
                 (case array_some (has_phone phone) users of
                    Inl thrown \<Rightarrow> Inl thrown
                  | Inr taken \<Rightarrow>
                      if taken then Inl (Error phone_taken_message)
                      else
                        let newUser =
                              JObj [(lit ''id'', JStr (lit ''user-'' @ decimal now)),
                                    (lit ''username'', JStr username),
                                    (lit ''phone'', JStr phone),
                                    (lit ''role'', JStr (lit ''user'')),
                                    (lit ''userType'', JStr (userType_string ut)),
                                    (lit ''password'', JStr password),
                                    (lit ''createdAt'', JStr now_iso)];
                            ls1 = setItem (lit ''users'') (JArr (users @ [newUser])) ls
                        in (case without_password newUser of
                              Inl thrown \<Rightarrow> Inl thrown
                            | Inr userWithoutPassword \<Rightarrow>
                                Inr (True, s\<lparr>user := Some userWithoutPassword,
                                             isAuthenticated := True,
                                             localStorage :=
                                               setItem (lit ''currentUser'')
                                                 userWithoutPassword ls1\<rparr>)))
             | Inr v \<Rightarrow> Inl TypeError))"

text \<open>
  \<open>register\<close>: the \<open>catch\<close> block logs what was thrown, throws it again when it is an
  instance of \<open>Error\<close> and returns \<open>false\<close> otherwise. \<open>Inl\<close> is what \<open>register\<close>
  throws to its caller. Nothing is written before the places that can throw.
\<close>

definition register ::
  "env \<Rightarrow> network \<Rightarrow> nat \<Rightarrow> jsstring \<Rightarrow> jsstring \<Rightarrow> jsstring \<Rightarrow> jsstring \<Rightarrow> userType \<Rightarrow> session
     \<Rightarrow> (js_error + bool) \<times> session" where
  "register e fetch now now_iso phone username password ut s =
     (case register_try e fetch now now_iso phone username password ut s of
        Inr (returned, s') \<Rightarrow> (Inr returned, s')
      | Inl thrown \<Rightarrow> if instanceof_Error thrown then (Inl thrown, s) else (Inr False, s))"

definition logout :: "session \<Rightarrow> session" where
  "logout s =
     s\<lparr>isAuthenticated := False, user := None,
       localStorage := removeItem (lit ''currentUser'') (localStorage s)\<rparr>"

text \<open>\<open>user?.role === 'admin'\<close>: \<open>?.\<close> gives \<open>undefined\<close> for \<open>null\<close>, which is not \<open>'admin'\<close>.\<close>

definition isAdmin :: "session \<Rightarrow> bool" where
  "isAdmin s =
     (case user s of
        None \<Rightarrow> False
      | Some u \<Rightarrow>
          (case get_prop u (lit ''role'') of
             Inl e \<Rightarrow> False
           | Inr r \<Rightarrow> strict_eq r (lit ''admin'')))"

section \<open>The image viewer (components/ImageViewer.tsx)\<close>

text \<open>
  The updaters that \<open>handleZoomIn\<close> and \<open>handleZoomOut\<close> give to \<open>setScale\<close>, on the
  scale as a real number, and the initial \<open>useState(1)\<close>. The two bounds are set by
  \<open>Math.min\<close> and \<open>Math.max\<close>, which compare and do not round.
\<close>

definition handleZoomIn :: "real \<Rightarrow> real" where
  "handleZoomIn prev = min (prev + 0.2) 5"

definition handleZoomOut :: "real \<Rightarrow> real" where
  "handleZoomOut prev = max (prev - 0.2) 0.2"

definition initial_scale :: real where
  "initial_scale = 1"

datatype zoom = ZoomIn | ZoomOut

fun zoom_step :: "real \<Rightarrow> zoom \<Rightarrow> real" where
  "zoom_step scale ZoomIn = handleZoomIn scale"
| "zoom_step scale ZoomOut = handleZoomOut scale"

definition zoom_all :: "zoom list \<Rightarrow> real \<Rightarrow> real" where
  "zoom_all zs scale = foldl zoom_step scale zs"

section \<open>Notions the properties are stated with\<close>

text \<open>The three writes that claim C2 names.\<close>

definition is_write :: "operation \<Rightarrow> bool" where
  "is_write op =
     (case op of
        SubmitWork w \<Rightarrow> True
      | PostMessage m \<Rightarrow> True
      | Vote a w \<Rightarrow> True
      | _ \<Rightarrow> False)"

text \<open>A roster record whose phone and password are the given strings, by plain equality.\<close>

definition record_matches :: "jsstring \<Rightarrow> jsstring \<Rightarrow> json \<Rightarrow> bool" where
  "record_matches phone password u =
     (get_prop u (lit ''phone'') = Inr (Some (JStr phone)) \<and>
      get_prop u (lit ''password'') = Inr (Some (JStr password)))"

text \<open>
  The local scan of \<open>login\<close> stops at an entry: a \<open>null\<close> entry, where reading
  \<open>u.phone\<close> throws, or a record that matches. Entries before it are passed over.
\<close>

definition scan_stops :: "jsstring \<Rightarrow> jsstring \<Rightarrow> json \<Rightarrow> bool" where
  "scan_stops phone password u = (u = JNull \<or> record_matches phone password u)"

text \<open>
  The username has the format of its user type, in the spec's words, with the class
  mark and the grade mark allowed for a student.
\<close>

definition name_format_ok :: "userType \<Rightarrow> jsstring \<Rightarrow> bool" where
  "name_format_ok ut username =
     (case ut of
        student \<Rightarrow> student_name [0x73ED, 0x7D1A] username
      | teacher \<Rightarrow> chinese_name username)"

text \<open>The phone already exists in the roster.\<close>

definition phone_registered :: "jsstring \<Rightarrow> json list \<Rightarrow> bool" where
  "phone_registered phone users =
     (\<exists>u\<in>set users. get_prop u (lit ''phone'') = Inr (Some (JStr phone)))"

text \<open>
  The record that the local branch of \<open>register\<close> appends to the roster, and the same
  record without its password, which becomes the session user.
\<close>

definition new_user :: "nat \<Rightarrow> jsstring \<Rightarrow> jsstring \<Rightarrow> jsstring \<Rightarrow> jsstring \<Rightarrow> userType \<Rightarrow> json" where
  "new_user now now_iso phone username password ut =
     JObj [(lit ''id'', JStr (lit ''user-'' @ decimal now)),
           (lit ''username'', JStr username),
           (lit ''phone'', JStr phone),
           (lit ''role'', JStr (lit ''user'')),
           (lit ''userType'', JStr (userType_string ut)),
           (lit ''password'', JStr password),
           (lit ''createdAt'', JStr now_iso)]"

definition session_user :: "nat \<Rightarrow> jsstring \<Rightarrow> jsstring \<Rightarrow> jsstring \<Rightarrow> userType \<Rightarrow> json" where
  "session_user now now_iso phone username ut =
     JObj [(lit ''id'', JStr (lit ''user-'' @ decimal now)),
           (lit ''username'', JStr username),
           (lit ''phone'', JStr phone),
           (lit ''role'', JStr (lit ''user'')),
           (lit ''userType'', JStr (userType_string ut)),
           (lit ''createdAt'', JStr now_iso)]"

section \<open>Properties of the image viewer\<close>

lemma zoom_step_within:
  "0.2 \<le> s \<Longrightarrow> s \<le> 5 \<Longrightarrow> 0.2 \<le> zoom_step s z \<and> zoom_step s z \<le> 5"
  by (cases z) (simp_all add: handleZoomIn_def handleZoomOut_def)

lemma zoom_all_within:
  "0.2 \<le> s \<Longrightarrow> s \<le> 5 \<Longrightarrow> 0.2 \<le> zoom_all zs s \<and> zoom_all zs s \<le> 5"
proof (induction zs arbitrary: s)
  case Nil
  then show ?case by (simp add: zoom_all_def)
next
  case (Cons z zs)
  have "0.2 \<le> zoom_step s z \<and> zoom_step s z \<le> 5"
    using Cons.prems(1) Cons.prems(2) by (rule zoom_step_within)
  then have "0.2 \<le> zoom_all zs (zoom_step s z) \<and> zoom_all zs (zoom_step s z) \<le> 5"
    using Cons.IH by blast
  then show ?case by (simp add: zoom_all_def)
qed

text \<open>
  C10: from any scale, zooming in never gives a scale above 5 and zooming out never
  gives one below 0.2; and whatever sequence of zooms in and out is applied to the
  initial scale 1, the scale stays between 0.2 and 5.
\<close>

theorem zoom_scale_clamped:
  "handleZoomIn s \<le> 5 \<and> 0.2 \<le> handleZoomOut s \<and>
   0.2 \<le> zoom_all zs initial_scale \<and> zoom_all zs initial_scale \<le> 5"
proof -
  have "0.2 \<le> zoom_all zs initial_scale \<and> zoom_all zs initial_scale \<le> 5"
    by (rule zoom_all_within) (simp_all add: initial_scale_def)
  then show ?thesis by (simp add: handleZoomIn_def handleZoomOut_def)
qed

section \<open>Properties of the admin bootstrap\<close>

lemma is_default_admin_total: "u \<noteq> JNull \<Longrightarrow> \<exists>b. is_default_admin u = Inr b"
  by (cases u) (auto simp: is_default_admin_def)

lemma array_some_no_null:
  "JNull \<notin> set us \<Longrightarrow>
     array_some is_default_admin us = Inr (filter (\<lambda>u. is_default_admin u = Inr True) us \<noteq> [])"
proof (induction us)
  case Nil
  then show ?case by simp
next
  case (Cons u us)
  then obtain b where "is_default_admin u = Inr b"
    using is_default_admin_total [of u] by auto
  with Cons show ?case by simp
qed

lemma array_some_snoc:
  "array_some p us = Inr False \<Longrightarrow>
     array_some p (us @ [a]) = (case p a of Inl e \<Rightarrow> Inl e | Inr hit \<Rightarrow> Inr hit)"
  by (induction us) (auto split: sum.splits if_splits)

lemma admin_with_password_is_admin:
  "is_default_admin (JObj (DEFAULT_ADMIN c @ [(lit ''password'', JStr (lit ''admin123''))])) = Inr True"
  by (simp add: is_default_admin_def DEFAULT_ADMIN_def strict_eq_def lit_def)

lemma safeLocalStorageGet_set: "safeLocalStorageGet k d (setItem k v ls) = v"
  by (simp add: safeLocalStorageGet_def setItem_def)

text \<open>A second run changes nothing, whatever the store holds.\<close>

lemma ensureAdminExists_idem:
  "ensureAdminExists c (ensureAdminExists c ls) = ensureAdminExists c ls"
proof (cases "safeLocalStorageGet (lit ''users'') (JArr []) ls")
  case (JArr users)
  show ?thesis
  proof (cases "array_some is_default_admin users")
    case (Inl e)
    with JArr show ?thesis by (simp add: ensureAdminExists_def)
  next
    case (Inr hit)
    show ?thesis
    proof (cases hit)
      case True
      with JArr Inr show ?thesis by (simp add: ensureAdminExists_def)
    next
      case False
      with Inr have "array_some is_default_admin
          (users @ [JObj (DEFAULT_ADMIN c @ [(lit ''password'', JStr (lit ''admin123''))])]) = Inr True"
        by (simp add: array_some_snoc admin_with_password_is_admin)
      with JArr Inr False show ?thesis
        by (simp add: ensureAdminExists_def safeLocalStorageSet_def safeLocalStorageGet_set)
    qed
  qed
qed (simp_all add: ensureAdminExists_def)

lemma ensureAdminExists_funpow:
  "0 < n \<Longrightarrow> (ensureAdminExists c ^^ n) ls = ensureAdminExists c ls"
proof (induction n)
  case 0
  then show ?case by simp
next
  case (Suc n)
  then show ?case by (cases n) (simp_all add: ensureAdminExists_idem)
qed

lemma roster_setItem: "roster (setItem (lit ''users'') (JArr us) ls) = us"
  by (simp add: roster_def setItem_def)

lemma roster_safe_get:
  "safeLocalStorageGet (lit ''users'') (JArr []) ls = JArr us \<Longrightarrow> roster ls = us"
  by (auto simp: safeLocalStorageGet_def roster_def
      split: option.splits stored.splits sum.splits json.splits)

lemma ensureAdminExists_one_admin:
  assumes ok: "entries_ok (safeLocalStorageGet (lit ''users'') (JArr []) ls)"
    and le: "length (admin_records ls) \<le> 1"
  shows "length (admin_records (ensureAdminExists c ls)) = 1"
proof -
  from ok obtain users where
    got: "safeLocalStorageGet (lit ''users'') (JArr []) ls = JArr users" and nn: "JNull \<notin> set users"
    by (auto simp: entries_ok_def split: json.splits)
  have ros: "roster ls = users" using got by (rule roster_safe_get)
  let ?adm = "filter (\<lambda>u. is_default_admin u = Inr True) users"
  have some: "array_some is_default_admin users = Inr (?adm \<noteq> [])"
    using nn by (rule array_some_no_null)
  show ?thesis
  proof (cases "?adm = []")
    case True
    with got some show ?thesis
      by (simp add: ensureAdminExists_def safeLocalStorageSet_def admin_records_def
          roster_setItem admin_with_password_is_admin)
  next
    case False
    then have "length ?adm \<ge> 1" by (cases ?adm) simp_all
    with le ros have "length ?adm = 1" by (simp add: admin_records_def)
    with got some False ros show ?thesis
      by (simp add: ensureAdminExists_def admin_records_def)
  qed
qed

text \<open>
  C3, as amended: take a store whose roster, as the safe read gives it, is an array
  without \<open>null\<close> entries (nothing stored and a text that does not decode read as the
  empty roster) and holds at most one record with role admin and the reserved phone.
  Then after each of one or more runs of \<open>ensureAdminExists\<close> the roster holds exactly
  one such record, and the runs after the first change nothing.
\<close>

theorem ensureAdminExists_self_healing:
  assumes "entries_ok (safeLocalStorageGet (lit ''users'') (JArr []) ls)"
    and "length (admin_records ls) \<le> 1"
    and "0 < n"
  shows "length (admin_records ((ensureAdminExists c ^^ n) ls)) = 1 \<and>
         (ensureAdminExists c ^^ n) ls = ensureAdminExists c ls"
  using assms by (simp add: ensureAdminExists_funpow ensureAdminExists_one_admin)

text \<open>
  The amended statement at a roster from which the admin record was deleted (one
  ordinary user is left), run twice.
\<close>

theorem ensureAdminExists_self_healing_witness:
  "length (admin_records ((ensureAdminExists (lit ''2026-01-01'') ^^ 2)
      [lit ''users'' \<mapsto> Json_text (JArr [JObj [(lit ''phone'', JStr (lit ''13900139000'')),
                                                 (lit ''role'', JStr (lit ''user''))]])])) = 1"
proof -
  let ?ls = "[lit ''users'' \<mapsto> Json_text (JArr [JObj [(lit ''phone'', JStr (lit ''13900139000'')),
                                                 (lit ''role'', JStr (lit ''user''))]])]"
  have a: "entries_ok (safeLocalStorageGet (lit ''users'') (JArr []) ?ls)"
    by (simp add: entries_ok_def safeLocalStorageGet_def)
  have b: "length (admin_records ?ls) \<le> 1"
    by (simp add: admin_records_def roster_def is_default_admin_def strict_eq_def lit_def)
  have c: "0 < (2::nat)" by simp
  from ensureAdminExists_self_healing [OF a b c] show ?thesis by blast
qed

text \<open>
  C3 as stated, "from any local user roster", fails at a roster that already holds
  two admin records: \<open>adminExists\<close> is true, nothing is written, and two remain.
\<close>

theorem ensureAdminExists_two_admins_counterexample:
  "length (admin_records (ensureAdminExists (lit ''2026-01-01'')
      [lit ''users'' \<mapsto> Json_text (JArr
          [JObj (DEFAULT_ADMIN (lit ''2025-01-01'') @ [(lit ''password'', JStr (lit ''admin123''))]),
           JObj (DEFAULT_ADMIN (lit ''2025-06-01'') @ [(lit ''password'', JStr (lit ''admin123''))])])])) = 2"
  by (simp add: ensureAdminExists_def safeLocalStorageGet_def admin_with_password_is_admin
      admin_records_def roster_def)

section \<open>Properties of the API service\<close>

lemma apiRequest_cases:
  "apiRequest e fetch ep opts =
     (case fetch (fetch_request e ep opts) of
        Rejects thrown \<Rightarrow>
          \<lparr>success = False, data = None,
           error = Some (if DEV e then unavailable_message
                         else case thrown of Thrown_Error m \<Rightarrow> m | Thrown_other \<Rightarrow> unknown_message)\<rparr>
      | Resolves r \<Rightarrow>
          if \<not> ok r
          then \<lparr>success = False, data = None,
                error = Some (if DEV e then unavailable_message
                              else request_failed_message (status r))\<rparr>
          else (case json r of
                  Inr b \<Rightarrow> b
                | Inl thrown \<Rightarrow>
                    \<lparr>success = False, data = None,
                     error = Some (if DEV e then unavailable_message
                                   else case thrown of Thrown_Error m \<Rightarrow> m
                                        | Thrown_other \<Rightarrow> unknown_message)\<rparr>))"
  by (simp add: apiRequest_def split: fetch_result.splits sum.splits)

lemma apiRequest_not_success:
  "remote_failed (fetch (fetch_request e ep opts)) \<Longrightarrow> \<not> success (apiRequest e fetch ep opts)"
  by (cases "fetch (fetch_request e ep opts)")
     (auto simp: apiRequest_cases split: sum.splits)

lemma perform_remote:
  "cache_key op = None \<Longrightarrow> perform op e fetch ls = (remote_result op e fetch, ls)"
  by (cases op)
     (simp_all add: remote_result_def submitWork_def userApi_login_def userApi_register_def
        getCurrentUser_def postMessage_def vote_def)

lemma perform_read:
  "cache_key op = Some key \<Longrightarrow>
     perform op e fetch ls =
       (if \<not> success (remote_result op e fetch)
        then (case ls key of
                Some (Json_text v) \<Rightarrow> (\<lparr>success = True, data = Some v, error = None\<rparr>, ls)
              | _ \<Rightarrow> (remote_result op e fetch, ls))
        else (remote_result op e fetch, ls))"
  by (cases op)
     (auto simp add: remote_result_def getSubmittedWorks_def getFeaturedWorks_def getMessages_def
        getActivities_def getKnowledgeItems_def Let_def split: option.splits stored.splits)

text \<open>
  C7, as amended: \<open>apiRequest\<close> returns an envelope whatever the network does. A
  response that is not \<open>ok\<close> gives \<open>success: false\<close>, no data, and as error "API
  request failed: " with the status; a rejected \<open>fetch\<close> or a body that does not
  decode gives the message of what was thrown when that is an \<open>Error\<close> and "unknown
  error" otherwise. In a development build (\<open>DEV\<close>) the error of every one of these
  failures is instead the fixed "service unavailable, using local storage". An \<open>ok\<close>
  response with a decoded body returns that body. The function has no other outcome:
  its whole body is inside \<open>try\<close>, and the \<open>catch\<close> block only builds an envelope.
\<close>

theorem apiRequest_failures_are_envelopes:
  "(fetch (fetch_request e ep opts) = Resolves r \<and> \<not> ok r \<longrightarrow>
      apiRequest e fetch ep opts =
        \<lparr>success = False, data = None,
         error = Some (if DEV e then unavailable_message else request_failed_message (status r))\<rparr>) \<and>
   (fetch (fetch_request e ep opts) = Rejects (Thrown_Error m) \<or>
    fetch (fetch_request e ep opts) = Resolves r \<and> ok r \<and> json r = Inl (Thrown_Error m) \<longrightarrow>
      apiRequest e fetch ep opts =
        \<lparr>success = False, data = None,
         error = Some (if DEV e then unavailable_message else m)\<rparr>) \<and>
   (fetch (fetch_request e ep opts) = Rejects Thrown_other \<or>
    fetch (fetch_request e ep opts) = Resolves r \<and> ok r \<and> json r = Inl Thrown_other \<longrightarrow>
      apiRequest e fetch ep opts =
        \<lparr>success = False, data = None,
         error = Some (if DEV e then unavailable_message else unknown_message)\<rparr>) \<and>
   (fetch (fetch_request e ep opts) = Resolves r \<and> ok r \<and> json r = Inr b \<longrightarrow>
      apiRequest e fetch ep opts = b)"
  by (auto simp: apiRequest_cases)

text \<open>
  The amended statement at a production build and a response with status 404.
\<close>

theorem apiRequest_failures_are_envelopes_witness:
  "apiRequest \<lparr>DEV = False, VITE_API_BASE_URL = None\<rparr>
      (\<lambda>rq. Resolves \<lparr>ok = False, status = 404, json = Inl Thrown_other\<rparr>)
      (lit ''messages'') no_options =
     \<lparr>success = False, data = None, error = Some (request_failed_message 404)\<rparr>"
  using apiRequest_failures_are_envelopes
    [of "\<lambda>rq. Resolves \<lparr>ok = False, status = 404, json = Inl Thrown_other\<rparr>"
        "\<lparr>DEV = False, VITE_API_BASE_URL = None\<rparr>" "lit ''messages''" no_options
        "\<lparr>ok = False, status = 404, json = Inl Thrown_other\<rparr>"]
  by simp

text \<open>
  C7 as stated fails in a development build: for a response with status 500 the
  error is the "service unavailable" message, not "API request failed: 500".
\<close>

theorem apiRequest_dev_status_counterexample:
  "error (apiRequest \<lparr>DEV = True, VITE_API_BASE_URL = None\<rparr>
      (\<lambda>rq. Resolves \<lparr>ok = False, status = 500, json = Inl Thrown_other\<rparr>)
      (lit ''messages'') no_options) = Some unavailable_message \<and>
   unavailable_message \<noteq> request_failed_message 500"
  by (simp add: apiRequest_def unavailable_message_def request_failed_message_def)

text \<open>
  C2: for \<open>submitWork\<close>, \<open>postMessage\<close> and \<open>vote\<close>, when the remote call fails
  (\<open>fetch\<close> rejects, the response is not \<open>ok\<close>, the body does not decode, or the
  decoded envelope signals failure) the envelope returned has \<open>success: false\<close>, and
  the store is left exactly as it was.
\<close>

theorem writes_have_no_local_fallback:
  assumes "is_write op"
    and "remote_failed (fetch (fetch_request e (endpoint op) (options_of op)))"
  shows "\<not> success (fst (perform op e fetch ls)) \<and> snd (perform op e fetch ls) = ls"
proof -
  from assms(1) have "cache_key op = None"
    by (cases op) (simp_all add: is_write_def)
  then have "perform op e fetch ls = (remote_result op e fetch, ls)"
    by (rule perform_remote)
  moreover have "\<not> success (remote_result op e fetch)"
    unfolding remote_result_def using assms(2) by (rule apiRequest_not_success)
  ultimately show ?thesis by simp
qed

text \<open>
  C2 at a vote while the network is down, with something cached under another key.
\<close>

theorem writes_have_no_local_fallback_witness:
  "\<not> success (fst (perform (Vote (lit ''a1'') 3) \<lparr>DEV = False, VITE_API_BASE_URL = None\<rparr>
        (\<lambda>rq. Rejects (Thrown_Error (lit ''Failed to fetch'')))
        [lit ''votingActivities'' \<mapsto> Json_text (JArr [])])) \<and>
   snd (perform (Vote (lit ''a1'') 3) \<lparr>DEV = False, VITE_API_BASE_URL = None\<rparr>
        (\<lambda>rq. Rejects (Thrown_Error (lit ''Failed to fetch'')))
        [lit ''votingActivities'' \<mapsto> Json_text (JArr [])]) =
     [lit ''votingActivities'' \<mapsto> Json_text (JArr [])]"
proof -
  have a: "is_write (Vote (lit ''a1'') 3)" by (simp add: is_write_def)
  have b: "remote_failed ((\<lambda>rq. Rejects (Thrown_Error (lit ''Failed to fetch'')))
      (fetch_request \<lparr>DEV = False, VITE_API_BASE_URL = None\<rparr> (endpoint (Vote (lit ''a1'') 3))
         (options_of (Vote (lit ''a1'') 3))))" by simp
  from writes_have_no_local_fallback [OF a b] show ?thesis by blast
qed

text \<open>
  C1: for each of the five reads (the operations that have a cache key), when the
  remote result is a failure envelope: if the text under the resource's key decodes
  to a value, the read returns \<open>{success: true, data: that value}\<close>; if no value is
  cached there (nothing stored, or a text that does not decode), it returns the remote
  failure envelope unchanged. The store is not written either way.
\<close>

theorem read_fallback:
  assumes "cache_key op = Some key"
    and "\<not> success (remote_result op e fetch)"
  shows "(ls key = Some (Json_text v) \<longrightarrow>
            perform op e fetch ls = (\<lparr>success = True, data = Some v, error = None\<rparr>, ls)) \<and>
         ((\<forall>w. ls key \<noteq> Some (Json_text w)) \<longrightarrow>
            perform op e fetch ls = (remote_result op e fetch, ls))"
  using assms by (auto simp: perform_read split: option.splits stored.splits)

text \<open>
  C1 at \<open>getMessages\<close> with the network down: once with a cached list, once with an
  empty store.
\<close>

theorem read_fallback_witness:
  "perform GetMessages \<lparr>DEV = False, VITE_API_BASE_URL = None\<rparr>
      (\<lambda>rq. Rejects (Thrown_Error (lit ''Failed to fetch'')))
      [lit ''messages'' \<mapsto> Json_text (JArr [JStr (lit ''hello'')])] =
     (\<lparr>success = True, data = Some (JArr [JStr (lit ''hello'')]), error = None\<rparr>,
      [lit ''messages'' \<mapsto> Json_text (JArr [JStr (lit ''hello'')])]) \<and>
   perform GetMessages \<lparr>DEV = False, VITE_API_BASE_URL = None\<rparr>
      (\<lambda>rq. Rejects (Thrown_Error (lit ''Failed to fetch''))) Map.empty =
     (\<lparr>success = False, data = None, error = Some (lit ''Failed to fetch'')\<rparr>, Map.empty)"
proof -
  let ?e = "\<lparr>DEV = False, VITE_API_BASE_URL = None\<rparr>"
  let ?f = "\<lambda>rq::request. Rejects (Thrown_Error (lit ''Failed to fetch''))"
  have k: "cache_key GetMessages = Some (lit ''messages'')" by simp
  have r: "remote_result GetMessages ?e ?f =
      \<lparr>success = False, data = None, error = Some (lit ''Failed to fetch'')\<rparr>"
    by (simp add: remote_result_def apiRequest_def)
  then have f: "\<not> success (remote_result GetMessages ?e ?f)" by simp
  from read_fallback [OF k f, of "[lit ''messages'' \<mapsto> Json_text (JArr [JStr (lit ''hello'')])]"
      "JArr [JStr (lit ''hello'')]"]
    read_fallback [OF k f, of Map.empty] r
  show ?thesis by simp
qed

text \<open>
  C6, as amended: if the envelope decoded from an \<open>ok\<close> response satisfies the
  envelope invariant (data with success, and only then), then so does the envelope
  every operation of the resource modules returns. The envelopes the client builds
  itself, for a failure and for the cache fallback, always satisfy it; the envelope
  of the server is passed on as it came.
\<close>

theorem envelope_invariant_kept:
  assumes "\<forall>r b. fetch (fetch_request e (endpoint op) (options_of op)) = Resolves r \<and> ok r \<and>
             json r = Inr b \<longrightarrow> envelope_invariant b"
  shows "envelope_invariant (fst (perform op e fetch ls))"
proof -
  have rem: "envelope_invariant (remote_result op e fetch)"
    using assms unfolding remote_result_def
    by (cases "fetch (fetch_request e (endpoint op) (options_of op))")
       (auto simp: apiRequest_cases envelope_invariant_def split: sum.splits)
  show ?thesis
  proof (cases "cache_key op")
    case None
    with rem show ?thesis by (simp add: perform_remote)
  next
    case (Some key)
    with rem show ?thesis
      by (auto simp: perform_read envelope_invariant_def split: option.splits stored.splits)
  qed
qed

text \<open>
  The amended statement at \<open>getFeaturedWorks\<close> and a server that answers with a
  well-formed envelope.
\<close>

theorem envelope_invariant_kept_witness:
  "envelope_invariant (fst (perform GetFeaturedWorks \<lparr>DEV = True, VITE_API_BASE_URL = None\<rparr>
      (\<lambda>rq. Resolves \<lparr>ok = True, status = 200,
                       json = Inr \<lparr>success = True, data = Some (JArr []), error = None\<rparr>\<rparr>)
      Map.empty))"
proof -
  have "\<forall>r b. (\<lambda>rq. Resolves \<lparr>ok = True, status = 200,
                       json = Inr \<lparr>success = True, data = Some (JArr []), error = None\<rparr>\<rparr>)
       (fetch_request \<lparr>DEV = True, VITE_API_BASE_URL = None\<rparr> (endpoint GetFeaturedWorks)
          (options_of GetFeaturedWorks)) = Resolves r \<and> ok r \<and> json r = Inr b
       \<longrightarrow> envelope_invariant b"
    by (auto simp: envelope_invariant_def)
  then show ?thesis by (rule envelope_invariant_kept)
qed

text \<open>
  C6 as stated fails when the server answers \<open>{success: true}\<close> with no data:
  \<open>getKnowledgeItems\<close> returns that envelope as it came.
\<close>

theorem envelope_invariant_server_counterexample:
  "\<not> envelope_invariant (fst (perform GetKnowledgeItems \<lparr>DEV = False, VITE_API_BASE_URL = None\<rparr>
      (\<lambda>rq. Resolves \<lparr>ok = True, status = 200,
                       json = Inr \<lparr>success = True, data = None, error = None\<rparr>\<rparr>)
      Map.empty))"
  by (simp add: getKnowledgeItems_def apiRequest_def envelope_invariant_def)

section \<open>The patterns of register, in the spec's words\<close>

lemma in_class_digit: "in_class [(0x30, 0x39)] c = is_digit c"
  by (simp add: in_class_def is_digit_def)

lemma in_class_chinese: "in_class [(0x4E00, 0x9FA5)] c = is_chinese c"
  by (simp add: in_class_def is_chinese_def)

lemma in_class_chr: "in_class (chr x) c = (c = x)"
  by (auto simp: in_class_def chr_def)

lemma in_class_range: "in_class [(a, b)] c = (a \<le> c \<and> c \<le> b)"
  by (simp add: in_class_def)

lemma in_class_append: "in_class (a @ b) c = (in_class a c \<or> in_class b c)"
  by (simp add: in_class_def)

lemma matches_Once:
  "matches ((cls, Once) # ps) s = (case s of [] \<Rightarrow> False | c # cs \<Rightarrow> in_class cls c \<and> matches ps cs)"
  by (cases s) simp_all

lemma matches_Star_only: "matches [(cls, Star)] s = list_all (in_class cls) s"
  by (induction s) auto

lemma matches_Plus_only: "matches [(cls, Plus)] s = (s \<noteq> [] \<and> list_all (in_class cls) s)"
  by (cases s) (simp_all add: matches_Star_only)

lemma matches_Times_only:
  "matches [(cls, Times n)] s = (length s = n \<and> list_all (in_class cls) s)"
proof (induction n arbitrary: s)
  case 0
  then show ?case by (cases s) simp_all
next
  case (Suc n)
  then show ?case by (cases s) auto
qed

lemma matches_Star_then_mark:
  assumes "\<And>c. in_class m c \<Longrightarrow> \<not> in_class d c"
  shows "matches [(d, Star), (m, Once), (n, Plus)] s =
           (case dropWhile (in_class d) s of
              [] \<Rightarrow> False
            | x # name \<Rightarrow> in_class m x \<and> name \<noteq> [] \<and> list_all (in_class n) name)"
proof (induction s)
  case Nil
  then show ?case by simp
next
  case (Cons c cs)
  show ?case
  proof (cases "in_class d c")
    case True
    then have "\<not> in_class m c" using assms by blast
    with True Cons show ?thesis by simp
  next
    case False
    then show ?thesis by (simp add: matches_Plus_only)
  qed
qed

lemma teacherNameRegex_iff: "matches teacherNameRegex s = chinese_name s"
  by (simp add: teacherNameRegex_def chinese_name_def matches_Plus_only in_class_chinese [abs_def])

lemma phoneRegex_iff: "matches phoneRegex s = cn_mobile s"
  by (auto simp: phoneRegex_def cn_mobile_def matches_Once matches_Times_only in_class_chr
      in_class_digit [abs_def] in_class_range split: list.splits)

lemma marks_not_digits:
  "in_class (chr 0x73ED @ chr 0x7C @ chr 0x7D1A) c \<Longrightarrow> \<not> in_class [(0x30, 0x39)] c"
  by (auto simp: in_class_append in_class_chr in_class_range)

lemma student_tail:
  "matches [([(0x30, 0x39)], Star), (chr 0x73ED @ chr 0x7C @ chr 0x7D1A, Once),
            ([(0x4E00, 0x9FA5)], Plus)] s = mark_and_name [0x73ED, 0x7C, 0x7D1A] s"
proof -
  have m: "matches [([(0x30, 0x39)], Star), (chr 0x73ED @ chr 0x7C @ chr 0x7D1A, Once),
                 ([(0x4E00, 0x9FA5)], Plus)] s =
          (case dropWhile (in_class [(0x30, 0x39)]) s of
             [] \<Rightarrow> False
           | x # name \<Rightarrow> in_class (chr 0x73ED @ chr 0x7C @ chr 0x7D1A) x \<and> name \<noteq> [] \<and>
                         list_all (in_class [(0x4E00, 0x9FA5)]) name)"
    by (rule matches_Star_then_mark) (rule marks_not_digits)
  have d: "in_class [(0x30, 0x39)] = is_digit"
    by (rule ext) (rule in_class_digit)
  have c: "in_class [(0x4E00, 0x9FA5)] = is_chinese"
    by (rule ext) (rule in_class_chinese)
  show ?thesis
  proof (cases "dropWhile is_digit s")
    case Nil
    show ?thesis unfolding m d c mark_and_name_def Nil by simp
  next
    case (Cons x name)
    show ?thesis unfolding m d c mark_and_name_def Cons
      by (simp add: in_class_append in_class_chr chinese_name_def)
  qed
qed

lemma studentNameRegex_iff:
  "matches studentNameRegex s = student_name [0x73ED, 0x7C, 0x7D1A] s"
  by (simp add: studentNameRegex_def student_name_def matches_Once in_class_chr in_class_range
      is_digit_def student_tail lit_def split: list.splits)

lemma mark_and_name_without_bar:
  assumes "0x7C \<notin> set rest"
  shows "mark_and_name [0x73ED, 0x7C, 0x7D1A] rest = mark_and_name [0x73ED, 0x7D1A] rest"
proof (cases "dropWhile is_digit rest")
  case Nil
  show ?thesis unfolding mark_and_name_def Nil by simp
next
  case (Cons m name)
  then have "m \<in> set (dropWhile is_digit rest)" by simp
  then have "m \<in> set rest" by (rule set_dropWhileD)
  with assms have "m \<noteq> 0x7C" by auto
  then show ?thesis unfolding mark_and_name_def Cons by simp
qed

lemma student_name_without_bar:
  assumes "0x7C \<notin> set s"
  shows "student_name [0x73ED, 0x7C, 0x7D1A] s = student_name [0x73ED, 0x7D1A] s"
  using assms unfolding student_name_def
  by (auto simp: mark_and_name_without_bar split: list.splits)

section \<open>Properties of login\<close>

lemma array_some_total:
  assumes "\<And>u. u \<in> set us \<Longrightarrow> \<exists>b. p u = Inr b"
  shows "array_some p us = Inr (\<exists>u\<in>set us. p u = Inr True)"
  using assms
proof (induction us)
  case Nil
  then show ?case by simp
next
  case (Cons u us)
  from Cons.prems [of u] obtain b where b: "p u = Inr b" by auto
  have "array_some p us = Inr (\<exists>u\<in>set us. p u = Inr True)"
    by (rule Cons.IH) (simp add: Cons.prems)
  with b show ?case by auto
qed

lemma has_phone_total: "u \<noteq> JNull \<Longrightarrow> \<exists>b. has_phone phone u = Inr b"
  by (cases u) (simp_all add: has_phone_def)

lemma has_phone_iff:
  "(has_phone phone u = Inr True) = (get_prop u (lit ''phone'') = Inr (Some (JStr phone)))"
  by (cases u) (auto simp: has_phone_def strict_eq_def)

lemma array_some_has_phone:
  assumes "JNull \<notin> set us"
  shows "array_some (has_phone phone) us =
           Inr (\<exists>u\<in>set us. get_prop u (lit ''phone'') = Inr (Some (JStr phone)))"
proof -
  have "array_some (has_phone phone) us = Inr (\<exists>u\<in>set us. has_phone phone u = Inr True)"
  proof (rule array_some_total)
    fix u assume "u \<in> set us"
    with assms have "u \<noteq> JNull" by auto
    then show "\<exists>b. has_phone phone u = Inr b" by (rule has_phone_total)
  qed
  then show ?thesis by (simp add: has_phone_iff)
qed

lemma credentials_match_iff:
  "(credentials_match phone password u = Inr True) = record_matches phone password u"
  by (cases u) (auto simp: credentials_match_def record_matches_def strict_eq_def)

lemma credentials_match_total: "u \<noteq> JNull \<Longrightarrow> \<exists>b. credentials_match phone password u = Inr b"
  by (cases u) (auto simp: credentials_match_def)

lemma record_matches_object: "record_matches phone password u \<Longrightarrow> \<exists>fs. u = JObj fs"
  by (cases u) (simp_all add: record_matches_def)

lemma array_find_no_null:
  "JNull \<notin> set us \<Longrightarrow>
     array_find (credentials_match phone password) us = Inr (find (record_matches phone password) us)"
proof (induction us)
  case Nil
  then show ?case by simp
next
  case (Cons u us)
  then have "u \<noteq> JNull" by auto
  then obtain b where b: "credentials_match phone password u = Inr b"
    using credentials_match_total by blast
  have "b = record_matches phone password u"
    using b credentials_match_iff [of phone password u] by auto
  with b Cons show ?case by simp
qed

lemma array_find_hit:
  "array_find (credentials_match phone password) us = Inr (Some u) \<Longrightarrow>
     u \<in> set us \<and> record_matches phone password u"
proof (induction us)
  case Nil
  then show ?case by simp
next
  case (Cons a us)
  then show ?case
    by (auto simp: credentials_match_iff [symmetric] split: sum.splits if_splits)
qed

lemma no_password_left: "\<not> has_field (lit ''password'') (JObj (filter (\<lambda>f. fst f \<noteq> lit ''password'') fs))"
  by (induction fs) (auto simp: has_field_def)

lemma userApi_login_result:
  "userApi_login e fetch phone password ls = (remote_result (Login phone password) e fetch, ls)"
  by (simp add: userApi_login_def remote_result_def)

lemma userApi_register_result:
  "userApi_register e fetch phone username password ut ls =
     (remote_result (Register phone username password ut) e fetch, ls)"
  by (simp add: userApi_register_def remote_result_def)

lemma login_remote:
  assumes "success_with_data (remote_result (Login phone password) e fetch) = Some d"
  shows "login e fetch phone password s =
           (True, s\<lparr>user := Some d, isAuthenticated := True,
                     localStorage := (localStorage s)(lit ''currentUser'' \<mapsto> Json_text d)\<rparr>)"
  using assms
  by (simp add: login_def login_try_def userApi_login_result safeLocalStorageSet_def setItem_def)

lemma login_local:
  assumes "success_with_data (remote_result (Login phone password) e fetch) = None"
  shows "login e fetch phone password s =
           (case safeLocalStorageGet (lit ''users'') (JArr []) (localStorage s) of
              JArr users \<Rightarrow>
                (case array_find (credentials_match phone password) users of
                   Inr (Some (JObj fs)) \<Rightarrow>
                     (True, s\<lparr>user := Some (JObj (filter (\<lambda>f. fst f \<noteq> lit ''password'') fs)),
                               isAuthenticated := True,
                               localStorage := (localStorage s)(lit ''currentUser'' \<mapsto>
                                 Json_text (JObj (filter (\<lambda>f. fst f \<noteq> lit ''password'') fs)))\<rparr>)
                 | _ \<Rightarrow> (False, s))
            | _ \<Rightarrow> (False, s))"
proof (cases "safeLocalStorageGet (lit ''users'') (JArr []) (localStorage s)")
  case (JArr users)
  show ?thesis
  proof (cases "array_find (credentials_match phone password) users")
    case (Inl thrown)
    with JArr assms show ?thesis
      by (simp add: login_def login_try_def userApi_login_result)
  next
    case (Inr found)
    show ?thesis
    proof (cases found)
      case None
      with Inr JArr assms show ?thesis
        by (simp add: login_def login_try_def userApi_login_result)
    next
      case (Some u)
      with Inr have "record_matches phone password u" using array_find_hit by blast
      then obtain fs where "u = JObj fs" using record_matches_object by blast
      with Some Inr JArr assms show ?thesis
        by (simp add: login_def login_try_def userApi_login_result safeLocalStorageSet_def
            setItem_def)
    qed
  qed
qed (use assms in \<open>simp_all add: login_def login_try_def userApi_login_result\<close>)

lemma login_no_match:
  assumes "success_with_data (remote_result (Login phone password) e fetch) = None"
    and "\<forall>u\<in>set (roster (localStorage s)). \<not> record_matches phone password u"
  shows "login e fetch phone password s = (False, s)"
proof (cases "safeLocalStorageGet (lit ''users'') (JArr []) (localStorage s)")
  case (JArr users)
  then have ros: "roster (localStorage s) = users" by (rule roster_safe_get)
  have "array_find (credentials_match phone password) users \<noteq> Inr (Some u)" for u
    using array_find_hit [of phone password users u] assms(2) ros by auto
  then have "(case array_find (credentials_match phone password) users of
                 Inr (Some (JObj fs)) \<Rightarrow> (True, t fs) | _ \<Rightarrow> (False, s)) = (False, s)" for t
    by (auto split: sum.splits option.splits json.splits)
  with assms(1) JArr show ?thesis by (simp add: login_local)
qed (use assms(1) in \<open>simp_all add: login_local\<close>)

lemma login_true_has_match:
  assumes "success_with_data (remote_result (Login phone password) e fetch) = None"
    and "fst (login e fetch phone password s)"
  shows "\<exists>u\<in>set (roster (localStorage s)). record_matches phone password u"
proof (rule ccontr)
  assume "\<not> (\<exists>u\<in>set (roster (localStorage s)). record_matches phone password u)"
  then have "login e fetch phone password s = (False, s)"
    using assms(1) by (intro login_no_match) auto
  with assms(2) show False by simp
qed

lemma login_false_unchanged:
  assumes "\<not> fst (login e fetch phone password s)"
  shows "snd (login e fetch phone password s) = s"
proof (cases "success_with_data (remote_result (Login phone password) e fetch)")
  case None
  with assms show ?thesis
    by (auto simp: login_local split: json.splits sum.splits option.splits)
next
  case (Some d)
  with assms show ?thesis by (simp add: login_remote)
qed

lemma array_find_scan:
  "array_find (credentials_match phone password) users =
     (case find (scan_stops phone password) users of
        None \<Rightarrow> Inr None
      | Some u \<Rightarrow> if u = JNull then Inl TypeError else Inr (Some u))"
proof (induction users)
  case Nil
  then show ?case by simp
next
  case (Cons u us)
  show ?case
  proof (cases "u = JNull")
    case True
    then show ?thesis by (simp add: credentials_match_def scan_stops_def)
  next
    case False
    then obtain b where b: "credentials_match phone password u = Inr b"
      using credentials_match_total by blast
    have "b = record_matches phone password u"
      using b credentials_match_iff [of phone password u] by auto
    with b False Cons show ?thesis by (simp add: scan_stops_def)
  qed
qed

lemma scan_stops_found:
  "find (scan_stops phone password) users = Some u \<Longrightarrow>
     u = JNull \<or> (\<exists>fs. u = JObj fs \<and> record_matches phone password (JObj fs))"
proof -
  assume "find (scan_stops phone password) users = Some u"
  then have "scan_stops phone password u" by (auto simp: find_Some_iff)
  then show ?thesis
    using record_matches_object [of phone password u] by (auto simp: scan_stops_def)
qed

lemma scan_no_null:
  "JNull \<notin> set users \<Longrightarrow>
     find (scan_stops phone password) users = find (record_matches phone password) users"
  by (induction users) (auto simp: scan_stops_def)

text \<open>
  C4: \<open>login\<close> is remote first. (1) When the remote envelope has \<open>success: true\<close>
  and data (truthy data, as every user record is), that data is adopted as the user,
  persisted as \<open>currentUser\<close>, and \<open>true\<close> is returned. Otherwise the roster is
  scanned from its first entry, and the scan stops at the first entry that is \<open>null\<close>
  or a record whose phone and password equal the arguments. (2) When it stops at a
  record, that record matches, its fields but \<open>password\<close> become the user and
  \<open>currentUser\<close>, and \<open>true\<close> is returned. (3) When it stops at a \<open>null\<close> entry (the
  error is caught) or does not stop, \<open>login\<close> returns \<open>false\<close> and changes nothing.
  (4) These are all the ways the scan can end, and (5) in a roster without \<open>null\<close>
  entries it ends at the first matching record. (6) A stored value that is no array
  gives \<open>false\<close>. (7) When no roster record matches, whatever the store holds,
  \<open>login\<close> returns \<open>false\<close> and changes nothing. (8) A local login that returns
  \<open>true\<close> always has a matching record. (9) Whenever \<open>login\<close> returns \<open>false\<close>, the
  state is unchanged. \<open>login\<close> never throws: the \<open>catch\<close> block returns \<open>false\<close>.
\<close>

theorem login_remote_first:
  fixes e fetch phone password s
  defines "result \<equiv> remote_result (Login phone password) e fetch"
  shows
    "(success result \<and> data result = Some d \<and> truthy d \<longrightarrow>
        login e fetch phone password s =
          (True, s\<lparr>user := Some d, isAuthenticated := True,
                    localStorage := (localStorage s)(lit ''currentUser'' \<mapsto> Json_text d)\<rparr>)) \<and>
     (success_with_data result = None \<and>
      safeLocalStorageGet (lit ''users'') (JArr []) (localStorage s) = JArr users \<and>
      find (scan_stops phone password) users = Some (JObj fs) \<longrightarrow>
        login e fetch phone password s =
          (True, s\<lparr>user := Some (JObj (filter (\<lambda>f. fst f \<noteq> lit ''password'') fs)),
                    isAuthenticated := True,
                    localStorage := (localStorage s)(lit ''currentUser'' \<mapsto>
                      Json_text (JObj (filter (\<lambda>f. fst f \<noteq> lit ''password'') fs)))\<rparr>) \<and>
        record_matches phone password (JObj fs) \<and>
        \<not> has_field (lit ''password'') (JObj (filter (\<lambda>f. fst f \<noteq> lit ''password'') fs))) \<and>
     (success_with_data result = None \<and>
      safeLocalStorageGet (lit ''users'') (JArr []) (localStorage s) = JArr users \<and>
      (find (scan_stops phone password) users = Some JNull \<or>
       find (scan_stops phone password) users = None) \<longrightarrow>
        login e fetch phone password s = (False, s)) \<and>
     (find (scan_stops phone password) users = None \<or>
      find (scan_stops phone password) users = Some JNull \<or>
      (\<exists>gs. find (scan_stops phone password) users = Some (JObj gs))) \<and>
     (JNull \<notin> set users \<longrightarrow>
        find (scan_stops phone password) users = find (record_matches phone password) users) \<and>
     (success_with_data result = None \<and>
      (\<forall>us. safeLocalStorageGet (lit ''users'') (JArr []) (localStorage s) \<noteq> JArr us) \<longrightarrow>
        login e fetch phone password s = (False, s)) \<and>
     (success_with_data result = None \<and>
      (\<forall>u\<in>set (roster (localStorage s)). \<not> record_matches phone password u) \<longrightarrow>
        login e fetch phone password s = (False, s)) \<and>
     (success_with_data result = None \<and> fst (login e fetch phone password s) \<longrightarrow>
        (\<exists>u\<in>set (roster (localStorage s)). record_matches phone password u)) \<and>
     (\<not> fst (login e fetch phone password s) \<longrightarrow> snd (login e fetch phone password s) = s)"
proof -
  have p1: "login e fetch phone password s =
          (True, s\<lparr>user := Some d, isAuthenticated := True,
                    localStorage := (localStorage s)(lit ''currentUser'' \<mapsto> Json_text d)\<rparr>)"
    if "success result \<and> data result = Some d \<and> truthy d"
  proof -
    from that have "success_with_data result = Some d" by (simp add: success_with_data_def)
    then show ?thesis unfolding result_def by (rule login_remote)
  qed
  have p2: "login e fetch phone password s =
          (True, s\<lparr>user := Some (JObj (filter (\<lambda>f. fst f \<noteq> lit ''password'') fs)),
                    isAuthenticated := True,
                    localStorage := (localStorage s)(lit ''currentUser'' \<mapsto>
                      Json_text (JObj (filter (\<lambda>f. fst f \<noteq> lit ''password'') fs)))\<rparr>) \<and>
        record_matches phone password (JObj fs)"
    if a: "success_with_data result = None \<and>
      safeLocalStorageGet (lit ''users'') (JArr []) (localStorage s) = JArr users \<and>
      find (scan_stops phone password) users = Some (JObj fs)"
  proof -
    from a have "array_find (credentials_match phone password) users = Inr (Some (JObj fs))"
      by (simp add: array_find_scan)
    moreover from a have "record_matches phone password (JObj fs)"
      using scan_stops_found [of phone password users "JObj fs"] by auto
    ultimately show ?thesis using a unfolding result_def by (simp add: login_local)
  qed
  have p3: "login e fetch phone password s = (False, s)"
    if a: "success_with_data result = None \<and>
      safeLocalStorageGet (lit ''users'') (JArr []) (localStorage s) = JArr users \<and>
      (find (scan_stops phone password) users = Some JNull \<or>
       find (scan_stops phone password) users = None)"
  proof -
    from a have "array_find (credentials_match phone password) users = Inl TypeError \<or>
        array_find (credentials_match phone password) users = Inr None"
      by (auto simp: array_find_scan)
    with a show ?thesis unfolding result_def by (auto simp: login_local)
  qed
  have p4: "find (scan_stops phone password) users = None \<or>
      find (scan_stops phone password) users = Some JNull \<or>
      (\<exists>gs. find (scan_stops phone password) users = Some (JObj gs))"
    using scan_stops_found [of phone password users]
    by (cases "find (scan_stops phone password) users") auto
  have p5: "find (scan_stops phone password) users = find (record_matches phone password) users"
    if "JNull \<notin> set users"
    using that by (rule scan_no_null)
  have p6: "login e fetch phone password s = (False, s)"
    if a: "success_with_data result = None \<and>
      (\<forall>us. safeLocalStorageGet (lit ''users'') (JArr []) (localStorage s) \<noteq> JArr us)"
    using a unfolding result_def
    by (cases "safeLocalStorageGet (lit ''users'') (JArr []) (localStorage s)")
       (simp_all add: login_local)
  have p7: "login e fetch phone password s = (False, s)"
    if "success_with_data result = None \<and>
      (\<forall>u\<in>set (roster (localStorage s)). \<not> record_matches phone password u)"
    using that unfolding result_def by (intro login_no_match) auto
  have p8: "\<exists>u\<in>set (roster (localStorage s)). record_matches phone password u"
    if "success_with_data result = None \<and> fst (login e fetch phone password s)"
    using that unfolding result_def by (intro login_true_has_match) auto
  have p9: "snd (login e fetch phone password s) = s" if "\<not> fst (login e fetch phone password s)"
    using that by (rule login_false_unchanged)
  from p1 p2 p3 p4 p5 p6 p7 p8 p9 no_password_left show ?thesis by blast
qed

text \<open>
  C4 at two logins that the network fails: a roster with the matching record before a
  \<open>null\<close> entry accepts, the same roster with the \<open>null\<close> entry first refuses.
\<close>

theorem login_remote_first_witness:
  "login \<lparr>DEV = False, VITE_API_BASE_URL = None\<rparr>
      (\<lambda>rq. Rejects (Thrown_Error (lit ''Failed to fetch'')))
      (lit ''13800138001'') (lit ''local-pw'')
      \<lparr>isAuthenticated = False, user = None,
       localStorage = [lit ''users'' \<mapsto> Json_text (JArr
          [JObj [(lit ''id'', JStr (lit ''user-1'')), (lit ''phone'', JStr (lit ''13800138001'')),
                 (lit ''role'', JStr (lit ''user'')), (lit ''password'', JStr (lit ''local-pw''))],
           JNull])]\<rparr> =
     (True,
      \<lparr>isAuthenticated = True,
       user = Some (JObj [(lit ''id'', JStr (lit ''user-1'')),
                          (lit ''phone'', JStr (lit ''13800138001'')),
                          (lit ''role'', JStr (lit ''user''))]),
       localStorage =
         [lit ''users'' \<mapsto> Json_text (JArr
            [JObj [(lit ''id'', JStr (lit ''user-1'')), (lit ''phone'', JStr (lit ''13800138001'')),
                   (lit ''role'', JStr (lit ''user'')), (lit ''password'', JStr (lit ''local-pw''))],
             JNull]),
          lit ''currentUser'' \<mapsto> Json_text (JObj [(lit ''id'', JStr (lit ''user-1'')),
                          (lit ''phone'', JStr (lit ''13800138001'')),
                          (lit ''role'', JStr (lit ''user''))])]\<rparr>) \<and>
   login \<lparr>DEV = False, VITE_API_BASE_URL = None\<rparr>
      (\<lambda>rq. Rejects (Thrown_Error (lit ''Failed to fetch'')))
      (lit ''13800138001'') (lit ''local-pw'')
      \<lparr>isAuthenticated = False, user = None,
       localStorage = [lit ''users'' \<mapsto> Json_text (JArr
          [JNull,
           JObj [(lit ''id'', JStr (lit ''user-1'')), (lit ''phone'', JStr (lit ''13800138001'')),
                 (lit ''role'', JStr (lit ''user'')), (lit ''password'', JStr (lit ''local-pw''))]])]\<rparr> =
     (False,
      \<lparr>isAuthenticated = False, user = None,
       localStorage = [lit ''users'' \<mapsto> Json_text (JArr
          [JNull,
           JObj [(lit ''id'', JStr (lit ''user-1'')), (lit ''phone'', JStr (lit ''13800138001'')),
                 (lit ''role'', JStr (lit ''user'')), (lit ''password'', JStr (lit ''local-pw''))]])]\<rparr>)"
proof -
  let ?e = "\<lparr>DEV = False, VITE_API_BASE_URL = None\<rparr>"
  let ?f = "\<lambda>rq::request. Rejects (Thrown_Error (lit ''Failed to fetch''))"
  let ?fs = "[(lit ''id'', JStr (lit ''user-1'')), (lit ''phone'', JStr (lit ''13800138001'')),
              (lit ''role'', JStr (lit ''user'')), (lit ''password'', JStr (lit ''local-pw''))]"
  let ?s1 = "\<lparr>isAuthenticated = False, user = None,
             localStorage = [lit ''users'' \<mapsto> Json_text (JArr [JObj ?fs, JNull])]\<rparr>"
  let ?s2 = "\<lparr>isAuthenticated = False, user = None,
             localStorage = [lit ''users'' \<mapsto> Json_text (JArr [JNull, JObj ?fs])]\<rparr>"
  have a: "success_with_data (remote_result (Login (lit ''13800138001'') (lit ''local-pw'')) ?e ?f) = None"
    by (simp add: remote_result_def apiRequest_def success_with_data_def)
  have b1: "safeLocalStorageGet (lit ''users'') (JArr []) (localStorage ?s1) = JArr [JObj ?fs, JNull]"
    by (simp add: safeLocalStorageGet_def)
  have b2: "safeLocalStorageGet (lit ''users'') (JArr []) (localStorage ?s2) = JArr [JNull, JObj ?fs]"
    by (simp add: safeLocalStorageGet_def)
  have d1: "find (scan_stops (lit ''13800138001'') (lit ''local-pw'')) [JObj ?fs, JNull] = Some (JObj ?fs)"
    by (simp add: scan_stops_def record_matches_def lit_def)
  have d2: "find (scan_stops (lit ''13800138001'') (lit ''local-pw'')) [JNull, JObj ?fs] = Some JNull"
    by (simp add: scan_stops_def)
  from login_remote_first [where e = ?e and fetch = ?f and phone = "lit ''13800138001''"
      and password = "lit ''local-pw''" and s = ?s1 and users = "[JObj ?fs, JNull]" and fs = ?fs]
    a b1 d1
  have r1: "login ?e ?f (lit ''13800138001'') (lit ''local-pw'') ?s1 =
      (True, ?s1\<lparr>user := Some (JObj (filter (\<lambda>f. fst f \<noteq> lit ''password'') ?fs)),
                 isAuthenticated := True,
                 localStorage := (localStorage ?s1)(lit ''currentUser'' \<mapsto>
                    Json_text (JObj (filter (\<lambda>f. fst f \<noteq> lit ''password'') ?fs)))\<rparr>)"
    by blast
  from login_remote_first [where e = ?e and fetch = ?f and phone = "lit ''13800138001''"
      and password = "lit ''local-pw''" and s = ?s2 and users = "[JNull, JObj ?fs]"]
    a b2 d2
  have r2: "login ?e ?f (lit ''13800138001'') (lit ''local-pw'') ?s2 = (False, ?s2)"
    by blast
  from r1 r2 show ?thesis by (simp add: lit_def)
qed

section \<open>Properties of register\<close>

lemma users_key_distinct: "lit ''users'' \<noteq> lit ''currentUser''"
  by (simp add: lit_def)

lemma without_password_fields:
  "without_password (JObj [(lit ''id'', a), (lit ''username'', b), (lit ''phone'', c),
       (lit ''role'', d), (lit ''userType'', t), (lit ''password'', p), (lit ''createdAt'', g)]) =
     Inr (JObj [(lit ''id'', a), (lit ''username'', b), (lit ''phone'', c),
       (lit ''role'', d), (lit ''userType'', t), (lit ''createdAt'', g)])"
  by (simp add: lit_def)

lemma register_local:
  assumes remote: "success_with_data (remote_result (Register phone username password ut) e fetch) = None"
    and stored: "JSON_parse (getItem_or (localStorage s) (lit ''users'') (Json_text (JArr []))) = Inr (JArr users)"
    and entries: "JNull \<notin> set users"
  shows "register e fetch now now_iso phone username password ut s =
           (if ut = student \<and> \<not> student_name [0x73ED, 0x7C, 0x7D1A] username
            then (Inl (Error student_format_message), s)
            else if ut = teacher \<and> \<not> chinese_name username
            then (Inl (Error teacher_format_message), s)
            else if \<not> cn_mobile phone
            then (Inl (Error phone_format_message), s)
            else if phone_registered phone users
            then (Inl (Error phone_taken_message), s)
            else (Inr True,
                  s\<lparr>user := Some (session_user now now_iso phone username ut),
                    isAuthenticated := True,
                    localStorage := (localStorage s)
                      (lit ''users'' \<mapsto>
                         Json_text (JArr (users @ [new_user now now_iso phone username password ut])),
                       lit ''currentUser'' \<mapsto>
                         Json_text (session_user now now_iso phone username ut))\<rparr>))"
proof -
  have some: "array_some (has_phone phone) users = Inr (phone_registered phone users)"
    using entries by (simp add: array_some_has_phone phone_registered_def)
  show ?thesis
    unfolding register_def register_try_def userApi_register_result
    using remote stored
    by (cases ut)
       (simp_all add: studentNameRegex_iff teacherNameRegex_iff phoneRegex_iff some
          without_password_fields new_user_def session_user_def setItem_def Let_def
          del: without_password.simps)
qed

text \<open>
  C5, as amended: on remote failure, with a stored roster that is absent, empty or
  an array without \<open>null\<close> entries, and a username without the bar character,
  \<open>register\<close> throws an \<open>Error\<close> with the message of the first check that fails, in
  this order, and leaves the state unchanged: the student format (year 202x, the
  year-group mark, a class number, the class mark or the grade mark, a Chinese name)
  for a student, a pure Chinese name for a teacher, the 11-digit mobile pattern for
  the phone, and the phone not yet in the roster. When all checks pass it appends the
  new record (role user) to the roster, adopts it without its password as the user
  and as \<open>currentUser\<close>, sets \<open>isAuthenticated\<close> and returns \<open>true\<close>. It never returns
  \<open>false\<close> here.
\<close>

theorem register_local_validation:
  assumes "success_with_data (remote_result (Register phone username password ut) e fetch) = None"
    and "JSON_parse (getItem_or (localStorage s) (lit ''users'') (Json_text (JArr []))) = Inr (JArr users)"
    and "JNull \<notin> set users"
    and "0x7C \<notin> set username"
  shows "register e fetch now now_iso phone username password ut s =
           (if ut = student \<and> \<not> name_format_ok ut username
            then (Inl (Error student_format_message), s)
            else if ut = teacher \<and> \<not> name_format_ok ut username
            then (Inl (Error teacher_format_message), s)
            else if \<not> cn_mobile phone
            then (Inl (Error phone_format_message), s)
            else if phone_registered phone users
            then (Inl (Error phone_taken_message), s)
            else (Inr True,
                  s\<lparr>user := Some (session_user now now_iso phone username ut),
                    isAuthenticated := True,
                    localStorage := (localStorage s)
                      (lit ''users'' \<mapsto>
                         Json_text (JArr (users @ [new_user now now_iso phone username password ut])),
                       lit ''currentUser'' \<mapsto>
                         Json_text (session_user now now_iso phone username ut))\<rparr>))"
proof -
  have "student_name [0x73ED, 0x7C, 0x7D1A] username = student_name [0x73ED, 0x7D1A] username"
    using assms(4) by (rule student_name_without_bar)
  then show ?thesis
    using register_local [OF assms(1) assms(2) assms(3)]
    by (cases ut) (simp_all add: name_format_ok_def)
qed

text \<open>
  The amended statement at the two registrations of the spec's P5: a well-formed
  student name registers locally, a bare name throws the format error.
\<close>

theorem register_local_validation_witness:
  "register \<lparr>DEV = False, VITE_API_BASE_URL = None\<rparr>
      (\<lambda>rq. Rejects (Thrown_Error (lit ''Failed to fetch'')))
      1700000000000 (lit ''2023-11-14T22:13:20.000Z'')
      (lit ''13800138001'') (lit ''2025'' @ [0x5C4A] @ lit ''1'' @ [0x73ED, 0x5F20, 0x4E09])
      (lit ''pw'') student
      \<lparr>isAuthenticated = False, user = None, localStorage = Map.empty\<rparr> =
     (Inr True,
      \<lparr>isAuthenticated = True,
       user = Some (session_user 1700000000000 (lit ''2023-11-14T22:13:20.000Z'')
                (lit ''13800138001'') (lit ''2025'' @ [0x5C4A] @ lit ''1'' @ [0x73ED, 0x5F20, 0x4E09])
                student),
       localStorage =
         [lit ''users'' \<mapsto> Json_text (JArr
            [new_user 1700000000000 (lit ''2023-11-14T22:13:20.000Z'') (lit ''13800138001'')
               (lit ''2025'' @ [0x5C4A] @ lit ''1'' @ [0x73ED, 0x5F20, 0x4E09]) (lit ''pw'') student]),
          lit ''currentUser'' \<mapsto> Json_text
            (session_user 1700000000000 (lit ''2023-11-14T22:13:20.000Z'')
               (lit ''13800138001'') (lit ''2025'' @ [0x5C4A] @ lit ''1'' @ [0x73ED, 0x5F20, 0x4E09])
               student)]\<rparr>) \<and>
   register \<lparr>DEV = False, VITE_API_BASE_URL = None\<rparr>
      (\<lambda>rq. Rejects (Thrown_Error (lit ''Failed to fetch'')))
      1700000000000 (lit ''2023-11-14T22:13:20.000Z'')
      (lit ''13800138000'') [0x5F20, 0x4E09] (lit ''pw'') student
      \<lparr>isAuthenticated = False, user = None, localStorage = Map.empty\<rparr> =
     (Inl (Error student_format_message),
      \<lparr>isAuthenticated = False, user = None, localStorage = Map.empty\<rparr>)"
proof -
  let ?e = "\<lparr>DEV = False, VITE_API_BASE_URL = None\<rparr>"
  let ?f = "\<lambda>rq::request. Rejects (Thrown_Error (lit ''Failed to fetch''))"
  let ?s = "\<lparr>isAuthenticated = False, user = None, localStorage = Map.empty\<rparr>"
  let ?name = "lit ''2025'' @ [0x5C4A] @ lit ''1'' @ [0x73ED, 0x5F20, 0x4E09]"
  have a: "success_with_data (remote_result (Register p n w student) ?e ?f) = None" for p n w
    by (simp add: remote_result_def apiRequest_def success_with_data_def)
  have b: "JSON_parse (getItem_or (localStorage ?s) (lit ''users'') (Json_text (JArr []))) = Inr (JArr [])"
    by (simp add: getItem_or_def)
  have c: "JNull \<notin> set []" by simp
  have d: "0x7C \<notin> set ?name" by (simp add: lit_def)
  have d': "0x7C \<notin> set [0x5F20, 0x4E09 :: 16 word]" by simp
  have ok: "name_format_ok student ?name"
    by (simp add: name_format_ok_def student_name_def mark_and_name_def is_digit_def
        chinese_name_def is_chinese_def lit_def)
  have bad: "\<not> name_format_ok student [0x5F20, 0x4E09]"
    by (simp add: name_format_ok_def student_name_def)
  have ph: "cn_mobile (lit ''13800138001'')"
    by (simp add: cn_mobile_def is_digit_def lit_def)
  have free: "\<not> phone_registered (lit ''13800138001'') []"
    by (simp add: phone_registered_def)
  from register_local_validation [OF a b c d, where phone = "lit ''13800138001''"
      and password = "lit ''pw''" and now = 1700000000000 and now_iso = "lit ''2023-11-14T22:13:20.000Z''"]
    register_local_validation [OF a b c d', where phone = "lit ''13800138000''"
      and password = "lit ''pw''" and now = 1700000000000 and now_iso = "lit ''2023-11-14T22:13:20.000Z''"]
    ok bad ph free
  show ?thesis by simp
qed

text \<open>
  C5 as stated fails at a student name written with the grade mark U+7D1A where the
  claim's pattern has the class mark U+73ED: the name does not match the claimed
  pattern, and \<open>register\<close> does not throw but returns \<open>true\<close>.
\<close>

theorem register_grade_mark_counterexample:
  "\<not> student_name [0x73ED] (lit ''2025'' @ [0x5C4A] @ lit ''1'' @ [0x7D1A, 0x5F20, 0x4E09]) \<and>
   fst (register \<lparr>DEV = False, VITE_API_BASE_URL = None\<rparr>
      (\<lambda>rq. Rejects (Thrown_Error (lit ''Failed to fetch'')))
      1700000000000 (lit ''2023-11-14T22:13:20.000Z'')
      (lit ''13800138001'') (lit ''2025'' @ [0x5C4A] @ lit ''1'' @ [0x7D1A, 0x5F20, 0x4E09])
      (lit ''pw'') student
      \<lparr>isAuthenticated = False, user = None, localStorage = Map.empty\<rparr>) = Inr True"
proof -
  let ?e = "\<lparr>DEV = False, VITE_API_BASE_URL = None\<rparr>"
  let ?f = "\<lambda>rq::request. Rejects (Thrown_Error (lit ''Failed to fetch''))"
  let ?s = "\<lparr>isAuthenticated = False, user = None, localStorage = Map.empty\<rparr>"
  let ?name = "lit ''2025'' @ [0x5C4A] @ lit ''1'' @ [0x7D1A, 0x5F20, 0x4E09]"
  have a: "success_with_data (remote_result (Register (lit ''13800138001'') ?name (lit ''pw'') student) ?e ?f) = None"
    by (simp add: remote_result_def apiRequest_def success_with_data_def)
  have b: "JSON_parse (getItem_or (localStorage ?s) (lit ''users'') (Json_text (JArr []))) = Inr (JArr [])"
    by (simp add: getItem_or_def)
  have c: "JNull \<notin> set []" by simp
  have claimed: "\<not> student_name [0x73ED] ?name"
    by (simp add: student_name_def mark_and_name_def is_digit_def lit_def)
  have code: "student_name [0x73ED, 0x7C, 0x7D1A] ?name"
    by (simp add: student_name_def mark_and_name_def is_digit_def chinese_name_def
        is_chinese_def lit_def)
  have ph: "cn_mobile (lit ''13800138001'')"
    by (simp add: cn_mobile_def is_digit_def lit_def)
  have free: "\<not> phone_registered (lit ''13800138001'') []"
    by (simp add: phone_registered_def)
  from register_local [OF a b c, where now = 1700000000000
      and now_iso = "lit ''2023-11-14T22:13:20.000Z''"] code ph free
  have "fst (register ?e ?f 1700000000000 (lit ''2023-11-14T22:13:20.000Z'')
      (lit ''13800138001'') ?name (lit ''pw'') student ?s) = Inr True"
    by simp
  with claimed show ?thesis by blast
qed

text \<open>
  C9: when the remote registration fails and \<open>register\<close> returns \<open>true\<close>, the record
  it appended to the roster has role \<open>user\<close>, the session user is that record without
  its password, and \<open>isAdmin\<close> is false.
\<close>

theorem register_local_role_user:
  assumes "success_with_data (remote_result (Register phone username password ut) e fetch) = None"
    and "register e fetch now now_iso phone username password ut s = (Inr True, s')"
  shows "(\<exists>users. roster (localStorage s') =
            users @ [new_user now now_iso phone username password ut]) \<and>
         get_prop (new_user now now_iso phone username password ut) (lit ''role'') =
           Inr (Some (JStr (lit ''user''))) \<and>
         user s' = Some (session_user now now_iso phone username ut) \<and>
         \<not> isAdmin s'"
proof -
  have role: "get_prop (new_user now now_iso phone username password ut) (lit ''role'') =
           Inr (Some (JStr (lit ''user'')))"
    by (simp add: new_user_def lit_def)
  have not_admin: "\<not> isAdmin t" if "user t = Some (session_user now now_iso phone username ut)" for t
    using that by (simp add: isAdmin_def session_user_def strict_eq_def lit_def)
  from assms have "(\<exists>users. roster (localStorage s') =
            users @ [new_user now now_iso phone username password ut]) \<and>
         user s' = Some (session_user now now_iso phone username ut)"
    unfolding register_def register_try_def userApi_register_result
    by (auto simp: without_password_fields new_user_def session_user_def setItem_def roster_def
        users_key_distinct Let_def simp del: without_password.simps
        split: if_splits sum.splits json.splits)
  with role not_admin show ?thesis by blast
qed

text \<open>
  C9 at a teacher who registers locally with the reserved admin phone while the
  roster is empty.
\<close>

theorem register_local_role_user_witness:
  "fst (register \<lparr>DEV = False, VITE_API_BASE_URL = None\<rparr>
      (\<lambda>rq. Rejects (Thrown_Error (lit ''Failed to fetch'')))
      1700000000000 (lit ''2023-11-14T22:13:20.000Z'')
      (lit ''13800138000'') [0x674E, 0x8001, 0x5E08] (lit ''pw'') teacher
      \<lparr>isAuthenticated = False, user = None, localStorage = Map.empty\<rparr>) = Inr True \<and>
   \<not> isAdmin (snd (register \<lparr>DEV = False, VITE_API_BASE_URL = None\<rparr>
      (\<lambda>rq. Rejects (Thrown_Error (lit ''Failed to fetch'')))
      1700000000000 (lit ''2023-11-14T22:13:20.000Z'')
      (lit ''13800138000'') [0x674E, 0x8001, 0x5E08] (lit ''pw'') teacher
      \<lparr>isAuthenticated = False, user = None, localStorage = Map.empty\<rparr>))"
proof -
  let ?e = "\<lparr>DEV = False, VITE_API_BASE_URL = None\<rparr>"
  let ?f = "\<lambda>rq::request. Rejects (Thrown_Error (lit ''Failed to fetch''))"
  let ?s = "\<lparr>isAuthenticated = False, user = None, localStorage = Map.empty\<rparr>"
  let ?name = "[0x674E, 0x8001, 0x5E08] :: jsstring"
  let ?r = "register ?e ?f 1700000000000 (lit ''2023-11-14T22:13:20.000Z'')
      (lit ''13800138000'') ?name (lit ''pw'') teacher ?s"
  have a: "success_with_data (remote_result (Register (lit ''13800138000'') ?name (lit ''pw'') teacher) ?e ?f) = None"
    by (simp add: remote_result_def apiRequest_def success_with_data_def)
  have b: "JSON_parse (getItem_or (localStorage ?s) (lit ''users'') (Json_text (JArr []))) = Inr (JArr [])"
    by (simp add: getItem_or_def)
  have c: "JNull \<notin> set []" by simp
  have nm: "chinese_name ?name" by (simp add: chinese_name_def is_chinese_def)
  have ph: "cn_mobile (lit ''13800138000'')"
    by (simp add: cn_mobile_def is_digit_def lit_def)
  have free: "\<not> phone_registered (lit ''13800138000'') []"
    by (simp add: phone_registered_def)
  from register_local [OF a b c, where now = 1700000000000
      and now_iso = "lit ''2023-11-14T22:13:20.000Z''"] nm ph free
  have t: "fst ?r = Inr True" by simp
  then have r: "?r = (Inr True, snd ?r)" by (metis prod.collapse)
  from register_local_role_user [OF a r] t show ?thesis by blast
qed

text \<open>
  C8 fails on the remote path of \<open>login\<close>: when the server's user record carries a
  \<open>password\<close> field, \<open>login\<close> adopts and persists the record as it came, password
  included. The remote path of \<open>register\<close> and the local paths of both functions
  remove the field before they adopt the record.
\<close>

theorem login_remote_keeps_password:
  "login \<lparr>DEV = False, VITE_API_BASE_URL = None\<rparr>
      (\<lambda>rq. Resolves \<lparr>ok = True, status = 200,
          json = Inr \<lparr>success = True,
                      data = Some (JObj [(lit ''id'', JStr (lit ''u1'')),
                                         (lit ''phone'', JStr (lit ''13800138001'')),
                                         (lit ''role'', JStr (lit ''user'')),
                                         (lit ''password'', JStr (lit ''pw''))]),
                      error = None\<rparr>\<rparr>)
      (lit ''13800138001'') (lit ''pw'')
      \<lparr>isAuthenticated = False, user = None, localStorage = Map.empty\<rparr> =
     (True,
      \<lparr>isAuthenticated = True,
       user = Some (JObj [(lit ''id'', JStr (lit ''u1'')),
                          (lit ''phone'', JStr (lit ''13800138001'')),
                          (lit ''role'', JStr (lit ''user'')),
                          (lit ''password'', JStr (lit ''pw''))]),
       localStorage =
         [lit ''currentUser'' \<mapsto>
            Json_text (JObj [(lit ''id'', JStr (lit ''u1'')),
                             (lit ''phone'', JStr (lit ''13800138001'')),
                             (lit ''role'', JStr (lit ''user'')),
                             (lit ''password'', JStr (lit ''pw''))])]\<rparr>) \<and>
   has_field (lit ''password'')
     (JObj [(lit ''id'', JStr (lit ''u1'')),
            (lit ''phone'', JStr (lit ''13800138001'')),
            (lit ''role'', JStr (lit ''user'')),
            (lit ''password'', JStr (lit ''pw''))])"
  by (simp add: login_def login_try_def userApi_login_def apiRequest_def success_with_data_def
      safeLocalStorageSet_def setItem_def has_field_def lit_def)

lemma register_remote_strips:
  assumes "success_with_data (remote_result (Register phone username password ut) e fetch) = Some (JObj fs)"
  shows "register e fetch now now_iso phone username password ut s =
           (Inr True,
            s\<lparr>user := Some (JObj (filter (\<lambda>f. fst f \<noteq> lit ''password'') fs)),
              isAuthenticated := True,
              localStorage := (localStorage s)(lit ''currentUser'' \<mapsto>
                Json_text (JObj (filter (\<lambda>f. fst f \<noteq> lit ''password'') fs)))\<rparr>)"
  using assms
  by (simp add: register_def register_try_def userApi_register_result safeLocalStorageSet_def
      setItem_def)

end
